theory Spec2Isabelle
  imports Complex_Main
begin

section \<open>Numbers and errors\<close>

text \<open>
  The simulation core computes with Python floats. What Python raises is a value of
  \<open>py_error\<close>: float division by zero raises \<open>ZeroDivisionError\<close> and \<open>math.sqrt\<close> of a
  negative number raises \<open>ValueError\<close>. A fallible computation has type
  \<open>py_error + 'a\<close>, and \<open>bind_res\<close> sequences two of them, stopping at the first error
  as the propagating exception does.

  The functions named as in the source compute in exact real arithmetic: \<open>math.hypot x y\<close>
  is \<open>sqrt (x\<^sup>2 + y\<^sup>2)\<close> and \<open>a ** b\<close> with a positive base is \<open>a powr b\<close>. The vector,
  collision and shockwave functions are given a second time, with the suffix \<open>_r\<close>, for an
  arbitrary rounding \<open>rnd\<close> applied to the result of every float operation; with
  \<open>binary64\<close> they are the program's arithmetic, and with \<open>exact\<close> they are the
  functions in exact arithmetic.
\<close>

datatype py_error = ZeroDivisionError | ValueError

definition bind_res :: "py_error + 'a \<Rightarrow> ('a \<Rightarrow> py_error + 'b) \<Rightarrow> py_error + 'b" where
  "bind_res m f = (case m of Inl e \<Rightarrow> Inl e | Inr v \<Rightarrow> f v)"

text \<open>Python's \<open>a / b\<close> on floats.\<close>

definition fdiv :: "real \<Rightarrow> real \<Rightarrow> py_error + real" where
  "fdiv a b = (if b = 0 then Inl ZeroDivisionError else Inr (a / b))"

text \<open>Python's \<open>math.sqrt\<close>.\<close>

definition math_sqrt :: "real \<Rightarrow> py_error + real" where
  "math_sqrt a = (if a < 0 then Inl ValueError else Inr (sqrt a))"

section \<open>physics/vector2d.py\<close>

datatype Vector2D = Vector2D (vec_x: real) (vec_y: real)

definition vec_add :: "Vector2D \<Rightarrow> Vector2D \<Rightarrow> Vector2D" where
  "vec_add u v = Vector2D (vec_x u + vec_x v) (vec_y u + vec_y v)"

definition vec_sub :: "Vector2D \<Rightarrow> Vector2D \<Rightarrow> Vector2D" where
  "vec_sub u v = Vector2D (vec_x u - vec_x v) (vec_y u - vec_y v)"

definition vec_mul :: "Vector2D \<Rightarrow> real \<Rightarrow> Vector2D" where
  "vec_mul v scalar = Vector2D (vec_x v * scalar) (vec_y v * scalar)"

definition vec_truediv :: "Vector2D \<Rightarrow> real \<Rightarrow> py_error + Vector2D" where
  "vec_truediv v scalar =
     bind_res (fdiv (vec_x v) scalar) (\<lambda>qx.
     bind_res (fdiv (vec_y v) scalar) (\<lambda>qy.
     Inr (Vector2D qx qy)))"

definition vec_neg :: "Vector2D \<Rightarrow> Vector2D" where
  "vec_neg v = Vector2D (- vec_x v) (- vec_y v)"

definition magnitude :: "Vector2D \<Rightarrow> real" where
  "magnitude v = sqrt (vec_x v * vec_x v + vec_y v * vec_y v)"

definition magnitude_sq :: "Vector2D \<Rightarrow> real" where
  "magnitude_sq v = vec_x v * vec_x v + vec_y v * vec_y v"

definition normalized :: "Vector2D \<Rightarrow> py_error + Vector2D" where
  "normalized v =
     (let mag = magnitude v in
      if mag = 0 then Inr (Vector2D 0 0)
      else bind_res (fdiv (vec_x v) mag) (\<lambda>qx.
           bind_res (fdiv (vec_y v) mag) (\<lambda>qy.
           Inr (Vector2D qx qy))))"

definition dot :: "Vector2D \<Rightarrow> Vector2D \<Rightarrow> real" where
  "dot u v = vec_x u * vec_x v + vec_y u * vec_y v"

definition distance_to :: "Vector2D \<Rightarrow> Vector2D \<Rightarrow> real" where
  "distance_to u v = magnitude (vec_sub u v)"

definition distance_sq_to :: "Vector2D \<Rightarrow> Vector2D \<Rightarrow> real" where
  "distance_sq_to u v = magnitude_sq (vec_sub u v)"

definition from_angle :: "real \<Rightarrow> real \<Rightarrow> Vector2D" where
  "from_angle angle_rad mag = Vector2D (cos angle_rad * mag) (sin angle_rad * mag)"

definition clamped :: "Vector2D \<Rightarrow> real \<Rightarrow> py_error + Vector2D" where
  "clamped v max_magnitude =
     (if magnitude_sq v \<le> max_magnitude * max_magnitude then Inr v
      else bind_res (normalized v) (\<lambda>u. Inr (vec_mul u max_magnitude)))"

section \<open>physics/collision.py\<close>

definition detect_collision :: "Vector2D \<Rightarrow> real \<Rightarrow> Vector2D \<Rightarrow> real \<Rightarrow> bool" where
  "detect_collision pos_a radius_a pos_b radius_b =
     (let min_dist = radius_a + radius_b in
      distance_sq_to pos_a pos_b < min_dist * min_dist)"

text \<open>
  The first block of \<open>resolve_collision\<close>: the vector from B to A, its length, the
  substitution of \<open>(1, 0)\<close> and \<open>1.0\<close> when the centres coincide, and the unit normal. It
  returns the unit normal \<open>n\<close> and the value of \<open>dist\<close> that the rest of the function uses.
\<close>

definition collision_normal :: "Vector2D \<Rightarrow> Vector2D \<Rightarrow> py_error + (Vector2D \<times> real)" where
  "collision_normal pos_a pos_b =
     (let normal = vec_sub pos_a pos_b;
          dist = magnitude normal;
          (normal, dist) = (if dist = 0 then (Vector2D 1 0, 1) else (normal, dist))
      in bind_res (normalized normal) (\<lambda>n. Inr (n, dist)))"

definition resolve_collision ::
  "Vector2D \<Rightarrow> Vector2D \<Rightarrow> real \<Rightarrow> real \<Rightarrow> Vector2D \<Rightarrow> Vector2D \<Rightarrow> real \<Rightarrow> real
     \<Rightarrow> py_error + (Vector2D \<times> Vector2D \<times> Vector2D \<times> Vector2D)" where
  "resolve_collision pos_a vel_a mass_a radius_a pos_b vel_b mass_b radius_b =
     bind_res (collision_normal pos_a pos_b) (\<lambda>(n, dist).
       let rel_vel = vec_sub vel_a vel_b;
           vel_along_normal = dot rel_vel n
       in
       if vel_along_normal > 0 then
         (let overlap = (radius_a + radius_b) - dist in
          if overlap > 0 then
            (let correction = vec_mul n (overlap / 2 + 0.5) in
             Inr (vel_a, vel_b, vec_add pos_a correction, vec_sub pos_b correction))
          else Inr (vel_a, vel_b, pos_a, pos_b))
       else
         (let total_mass = mass_a + mass_b in
          bind_res (fdiv (2 * vel_along_normal) total_mass) (\<lambda>impulse.
            let new_vel_a = vec_sub vel_a (vec_mul n (impulse * mass_b));
                new_vel_b = vec_add vel_b (vec_mul n (impulse * mass_a));
                overlap = (radius_a + radius_b) - dist
            in
            if overlap > 0 then
              (let correction = vec_mul n (overlap / 2 + 0.5) in
               Inr (new_vel_a, new_vel_b, vec_add pos_a correction, vec_sub pos_b correction))
            else Inr (new_vel_a, new_vel_b, pos_a, pos_b))))"

section \<open>constants.py\<close>

definition WINDOW_WIDTH :: real where "WINDOW_WIDTH = 800"
definition WINDOW_HEIGHT :: real where "WINDOW_HEIGHT = 450"
definition STATUS_BAR_HEIGHT :: real where "STATUS_BAR_HEIGHT = 30"
definition PLAY_AREA_HEIGHT :: real where "PLAY_AREA_HEIGHT = WINDOW_HEIGHT - STATUS_BAR_HEIGHT"
definition MIN_RADIUS :: real where "MIN_RADIUS = 12"
definition MAX_RADIUS :: real where "MAX_RADIUS = 30"
definition MIN_SPEED :: real where "MIN_SPEED = 0.5"
definition MAX_SPEED :: real where "MAX_SPEED = 3.0"
definition MASS_DENSITY :: real where "MASS_DENSITY = 1.0"
definition SURFACE_FRICTION :: real where "SURFACE_FRICTION = 0.9999"
definition GRAVITY_ACCEL :: real where "GRAVITY_ACCEL = 0.15"
definition BOUNCE_RESTITUTION :: real where "BOUNCE_RESTITUTION = 0.85"
definition FLOOR_FRICTION :: real where "FLOOR_FRICTION = 0.99"
definition AIR_RESISTANCE :: real where "AIR_RESISTANCE = 0.9995"
definition LEFT_WALL_BOOST :: real where "LEFT_WALL_BOOST = 1.12"
definition MAX_SPEED_CAP :: real where "MAX_SPEED_CAP = 5.0"
definition SHOCKWAVE_STRENGTH :: real where "SHOCKWAVE_STRENGTH = 800.0"
definition SHOCKWAVE_RADIUS :: real where "SHOCKWAVE_RADIUS = 400.0"

type_synonym rgb = "int \<times> int \<times> int"

definition COLOR_BALL_LEFT :: rgb where "COLOR_BALL_LEFT = (75, 46, 131)"

section \<open>physics/forces.py\<close>

definition apply_surface_friction :: "Vector2D \<Rightarrow> real \<Rightarrow> py_error + Vector2D" where
  "apply_surface_friction v m =
     bind_res (math_sqrt m) (\<lambda>root.
       let factor = SURFACE_FRICTION powr root in Inr (vec_mul v factor))"

definition apply_gravity :: "Vector2D \<Rightarrow> Vector2D" where
  "apply_gravity v = vec_add v (Vector2D 0 GRAVITY_ACCEL)"

definition apply_air_resistance :: "Vector2D \<Rightarrow> Vector2D" where
  "apply_air_resistance v = vec_mul v AIR_RESISTANCE"

definition apply_floor_friction :: "Vector2D \<Rightarrow> Vector2D" where
  "apply_floor_friction v = Vector2D (vec_x v * FLOOR_FRICTION) (vec_y v)"

definition apply_bounce_restitution :: "Vector2D \<Rightarrow> Vector2D" where
  "apply_bounce_restitution v = Vector2D (vec_x v) (vec_y v * BOUNCE_RESTITUTION)"

definition compute_wall_boost :: "Vector2D \<Rightarrow> py_error + Vector2D" where
  "compute_wall_boost v =
     (if magnitude v \<ge> MAX_SPEED_CAP then clamped v MAX_SPEED_CAP
      else (let boosted = Vector2D (vec_x v * LEFT_WALL_BOOST) (vec_y v)
            in clamped boosted MAX_SPEED_CAP))"

definition compute_shockwave_impulse :: "Vector2D \<Rightarrow> Vector2D \<Rightarrow> py_error + Vector2D" where
  "compute_shockwave_impulse ball_pos shockwave_origin =
     (let delta = vec_sub ball_pos shockwave_origin;
          dist = magnitude delta
      in if dist > SHOCKWAVE_RADIUS then Inr (Vector2D 0 0)
         else (let safe_dist = max dist 1 in
               bind_res (fdiv SHOCKWAVE_STRENGTH safe_dist) (\<lambda>strength.
               bind_res (normalized delta) (\<lambda>unit.
               Inr (vec_mul unit strength)))))"

section \<open>model/ball.py\<close>

text \<open>
  A \<open>Ball\<close> object. The class defines no \<open>__eq__\<close>, so Python compares balls by object
  identity; the field \<open>ident\<close> is that identity. The other fields are the slots of the
  class.
\<close>

record Ball =
  ident :: nat
  position :: Vector2D
  velocity :: Vector2D
  radius :: real
  mass :: real
  color :: rgb

text \<open>\<open>Ball.__init__\<close>; \<open>oid\<close> is the identity of the object being created.\<close>

definition Ball_init :: "nat \<Rightarrow> Vector2D \<Rightarrow> Vector2D \<Rightarrow> real \<Rightarrow> rgb \<Rightarrow> Ball" where
  "Ball_init oid pos vel r col =
     \<lparr>ident = oid, position = pos, velocity = vel, radius = r,
      mass = MASS_DENSITY * pi * r * r, color = col\<rparr>"

definition speed :: "Ball \<Rightarrow> real" where
  "speed b = magnitude (velocity b)"

definition kinetic_energy :: "Ball \<Rightarrow> real" where
  "kinetic_energy b = 0.5 * mass b * magnitude_sq (velocity b)"


definition update_position :: "Ball \<Rightarrow> Ball" where
  "update_position b = b\<lparr>position := vec_add (position b) (velocity b)\<rparr>"

definition apply_impulse :: "Ball \<Rightarrow> Vector2D \<Rightarrow> Ball" where
  "apply_impulse b impulse = b\<lparr>velocity := vec_add (velocity b) impulse\<rparr>"

definition clamp_speed :: "Ball \<Rightarrow> real \<Rightarrow> py_error + Ball" where
  "clamp_speed b max_speed =
     bind_res (clamped (velocity b) max_speed) (\<lambda>v. Inr (b\<lparr>velocity := v\<rparr>))"

text \<open>
  \<open>handle_wall_bounce\<close> returns the ball after the bounce and the flag \<open>hit_left\<close>;
  \<open>handle_wall_bounce_gravity\<close> returns the ball, \<open>hit_left\<close> and \<open>hit_floor\<close>.
\<close>

definition handle_wall_bounce :: "Ball \<Rightarrow> real \<Rightarrow> real \<Rightarrow> Ball \<times> bool" where
  "handle_wall_bounce b width height =
     (let px = vec_x (position b); py = vec_y (position b);
          vx = vec_x (velocity b); vy = vec_y (velocity b);
          (vx, px, hit_left) =
            (if px - radius b \<le> 0 \<and> vx < 0 then (- vx, radius b, True)
             else if px + radius b \<ge> width \<and> vx > 0 then (- vx, width - radius b, False)
             else (vx, px, False));
          (vy, py) =
            (if py - radius b \<le> 0 \<and> vy < 0 then (- vy, radius b)
             else if py + radius b \<ge> height \<and> vy > 0 then (- vy, height - radius b)
             else (vy, py))
      in (b\<lparr>position := Vector2D px py, velocity := Vector2D vx vy\<rparr>, hit_left))"

definition handle_wall_bounce_gravity :: "Ball \<Rightarrow> real \<Rightarrow> real \<Rightarrow> Ball \<times> bool \<times> bool" where
  "handle_wall_bounce_gravity b width height =
     (let px = vec_x (position b); py = vec_y (position b);
          vx = vec_x (velocity b); vy = vec_y (velocity b);
          (vx, px, hit_left) =
            (if px - radius b \<le> 0 \<and> vx < 0 then (- vx, radius b, True)
             else if px + radius b \<ge> width \<and> vx > 0 then (- vx, width - radius b, False)
             else (vx, px, False));
          (vy, py, hit_floor) =
            (if py - radius b \<le> 0 \<and> vy < 0 then (- vy, radius b, False)
             else if py + radius b \<ge> height \<and> vy > 0 then (- vy, height - radius b, True)
             else (vy, py, False))
      in (b\<lparr>position := Vector2D px py, velocity := Vector2D vx vy\<rparr>, hit_left, hit_floor))"

definition is_on_floor :: "Ball \<Rightarrow> bool" where
  "is_on_floor b \<longleftrightarrow> vec_y (position b) + radius b \<ge> PLAY_AREA_HEIGHT - 1"

text \<open>
  The values that \<open>random.uniform\<close> returns inside \<open>Ball.create_random\<close>: the radius, and
  the angle and the speed that are drawn only when no velocity is given.
\<close>

record random_draws =
  draw_radius :: real
  draw_angle :: real
  draw_speed :: real

definition create_random ::
  "nat \<Rightarrow> Vector2D \<Rightarrow> rgb \<Rightarrow> Vector2D option \<Rightarrow> random_draws \<Rightarrow> Ball" where
  "create_random oid pos col vel rnd =
     (let r = draw_radius rnd;
          vel = (case vel of
                   None \<Rightarrow> (let angle = draw_angle rnd; spd = draw_speed rnd
                            in from_angle angle spd)
                 | Some v \<Rightarrow> v)
      in Ball_init oid pos vel r col)"

section \<open>model/simulation.py\<close>

record shockwave_effect =
  origin :: Vector2D
  age :: int

record Simulation =
  balls :: "Ball list"
  gravity_on :: bool
  paused :: bool
  wall_glow_timer :: real
  shockwave_effects :: "shockwave_effect list"
  initial_balls :: "(Vector2D \<times> Vector2D \<times> real \<times> rgb) list"

definition WALL_GLOW_DURATION :: real where "WALL_GLOW_DURATION = 30"
definition SHOCKWAVE_VISUAL_DURATION :: int where "SHOCKWAVE_VISUAL_DURATION = 20"

definition Simulation_init :: Simulation where
  "Simulation_init =
     \<lparr>balls = [], gravity_on = False, paused = False, wall_glow_timer = 0,
      shockwave_effects = [], initial_balls = []\<rparr>"

definition save_initial_state :: "Simulation \<Rightarrow> Ball \<Rightarrow> Simulation" where
  "save_initial_state sim ball =
     sim\<lparr>initial_balls :=
           initial_balls sim @ [(position ball, velocity ball, radius ball, color ball)]\<rparr>"

text \<open>
  The two loops of \<open>spawn_ball\<close> over the existing balls: true when the loop returns
  \<open>None\<close> at some ball, false when it runs to its end.
\<close>

fun spawn_overlaps :: "Vector2D \<Rightarrow> real \<Rightarrow> Ball list \<Rightarrow> bool" where
  "spawn_overlaps pos r [] = False"
| "spawn_overlaps pos r (b # bs) =
     (if distance_to pos (position b) < r + radius b then True
      else spawn_overlaps pos r bs)"

text \<open>
  \<open>spawn_ball\<close> returns the new ball or \<open>None\<close>, and the simulation after the call.
  \<open>oid\<close> is the identity of the ball object that \<open>create_random\<close> allocates.
\<close>

definition spawn_ball ::
  "Simulation \<Rightarrow> nat \<Rightarrow> Vector2D \<Rightarrow> rgb \<Rightarrow> Vector2D option \<Rightarrow> random_draws
     \<Rightarrow> Ball option \<times> Simulation" where
  "spawn_ball sim oid pos col vel rnd =
     (let test_radius = (MIN_RADIUS + MAX_RADIUS) / 2 in
      if spawn_overlaps pos test_radius (balls sim) then (None, sim)
      else (let ball = create_random oid pos col vel rnd in
            if spawn_overlaps pos (radius ball) (balls sim) then (None, sim)
            else (let sim = sim\<lparr>balls := balls sim @ [ball]\<rparr>;
                      sim = save_initial_state sim ball
                  in (Some ball, sim))))"

text \<open>
  \<open>remove_ball\<close> takes a reference to a ball object, here its identity: \<open>in\<close> and
  \<open>list.remove\<close> look for the first element of the list that is that object.
\<close>

definition remove_ball :: "Simulation \<Rightarrow> nat \<Rightarrow> Simulation" where
  "remove_ball sim oid =
     (case find (\<lambda>b. ident b = oid) (balls sim) of
        None \<Rightarrow> sim
      | Some b \<Rightarrow> sim\<lparr>balls := remove1 b (balls sim)\<rparr>)"

definition reset :: "Simulation \<Rightarrow> Simulation" where
  "reset sim =
     sim\<lparr>balls := [], gravity_on := False, paused := False, wall_glow_timer := 0,
         shockwave_effects := [], initial_balls := []\<rparr>"

text \<open>
  The body of the first loop of \<open>update\<close> for one ball: forces, integration, wall
  bounce, wall boost and speed clamp. It returns the ball and whether it hit the left wall.
\<close>

definition ball_frame :: "bool \<Rightarrow> Ball \<Rightarrow> py_error + (Ball \<times> bool)" where
  "ball_frame gravity ball =
     bind_res
       (if gravity then
          (let ball = ball\<lparr>velocity := apply_gravity (velocity ball)\<rparr>;
               ball = ball\<lparr>velocity := apply_air_resistance (velocity ball)\<rparr>
           in Inr ball)
        else
          bind_res (apply_surface_friction (velocity ball) (mass ball)) (\<lambda>v.
            Inr (ball\<lparr>velocity := v\<rparr>)))
       (\<lambda>ball.
          let ball = update_position ball;
              (ball, hit_left) =
                (if gravity then
                   (let (ball, hit_left, hit_floor) =
                          handle_wall_bounce_gravity ball WINDOW_WIDTH PLAY_AREA_HEIGHT
                    in if hit_floor then
                         (let ball = ball\<lparr>velocity := apply_bounce_restitution (velocity ball)\<rparr>;
                              ball = ball\<lparr>velocity := apply_floor_friction (velocity ball)\<rparr>
                          in (ball, hit_left))
                       else (ball, hit_left))
                 else handle_wall_bounce ball WINDOW_WIDTH PLAY_AREA_HEIGHT)
          in
          bind_res
            (if hit_left then
               bind_res (compute_wall_boost (velocity ball)) (\<lambda>v. Inr (ball\<lparr>velocity := v\<rparr>))
             else Inr ball)
            (\<lambda>ball.
               bind_res (clamp_speed ball MAX_SPEED_CAP) (\<lambda>ball. Inr (ball, hit_left))))"

text \<open>
  The first loop of \<open>update\<close>, over the balls in order; the second component is
  \<open>wall_glow_timer\<close>, set to the full duration whenever a ball hits the left wall.
\<close>

fun move_balls :: "bool \<Rightarrow> Ball list \<Rightarrow> real \<Rightarrow> py_error + (Ball list \<times> real)" where
  "move_balls gravity [] timer = Inr ([], timer)"
| "move_balls gravity (ball # rest) timer =
     bind_res (ball_frame gravity ball) (\<lambda>(ball, hit_left).
       let timer = (if hit_left then WALL_GLOW_DURATION else timer) in
       bind_res (move_balls gravity rest timer) (\<lambda>(rest, timer).
         Inr (ball # rest, timer)))"

text \<open>The body of the pairwise loop for the pair of indices \<open>(i, j)\<close>.\<close>

definition collide_pair :: "nat \<Rightarrow> nat \<Rightarrow> Ball list \<Rightarrow> py_error + Ball list" where
  "collide_pair i j bs =
     (let a = bs ! i; b = bs ! j in
      if detect_collision (position a) (radius a) (position b) (radius b) then
        bind_res
          (resolve_collision (position a) (velocity a) (mass a) (radius a)
                             (position b) (velocity b) (mass b) (radius b))
          (\<lambda>(va, vb, pa, pb).
             Inr (bs[i := a\<lparr>velocity := va, position := pa\<rparr>,
                     j := b\<lparr>velocity := vb, position := pb\<rparr>]))
      else Inr bs)"

text \<open>The inner loop \<open>for j in range(i + 1, n)\<close> and the outer loop \<open>for i in range(n)\<close>.\<close>

fun collide_row :: "nat \<Rightarrow> nat list \<Rightarrow> Ball list \<Rightarrow> py_error + Ball list" where
  "collide_row i [] bs = Inr bs"
| "collide_row i (j # js) bs = bind_res (collide_pair i j bs) (collide_row i js)"

fun collide_rows :: "nat \<Rightarrow> nat list \<Rightarrow> Ball list \<Rightarrow> py_error + Ball list" where
  "collide_rows n [] bs = Inr bs"
| "collide_rows n (i # is) bs = bind_res (collide_row i [i + 1 ..< n] bs) (collide_rows n is)"

definition pairwise_collisions :: "Ball list \<Rightarrow> py_error + Ball list" where
  "pairwise_collisions bs = (let n = length bs in collide_rows n [0 ..< n] bs)"

text \<open>The last loop of \<open>update\<close>: every effect ages by one, and the young ones are kept.\<close>

fun age_effects :: "shockwave_effect list \<Rightarrow> shockwave_effect list" where
  "age_effects [] = []"
| "age_effects (effect # rest) =
     (let effect = effect\<lparr>age := age effect + 1\<rparr> in
      if age effect < SHOCKWAVE_VISUAL_DURATION then effect # age_effects rest
      else age_effects rest)"

text \<open>
  \<open>update\<close>. An exception raised inside it propagates to the caller; the model then
  returns the error and no state.
\<close>

definition update :: "Simulation \<Rightarrow> py_error + Simulation" where
  "update sim =
     (if paused sim then Inr sim
      else
        bind_res (move_balls (gravity_on sim) (balls sim) (wall_glow_timer sim)) (\<lambda>(bs, timer).
        bind_res (pairwise_collisions bs) (\<lambda>bs.
          let timer = (if timer > 0 then timer - 1 else timer) in
          Inr (sim\<lparr>balls := bs, wall_glow_timer := timer,
                   shockwave_effects := age_effects (shockwave_effects sim)\<rparr>))))"

fun shock_balls :: "Vector2D \<Rightarrow> Ball list \<Rightarrow> py_error + Ball list" where
  "shock_balls org [] = Inr []"
| "shock_balls org (ball # rest) =
     bind_res (compute_shockwave_impulse (position ball) org) (\<lambda>impulse.
     bind_res (clamp_speed (apply_impulse ball impulse) MAX_SPEED_CAP) (\<lambda>ball.
     bind_res (shock_balls org rest) (\<lambda>rest. Inr (ball # rest))))"

definition apply_shockwave :: "Simulation \<Rightarrow> Vector2D \<Rightarrow> py_error + Simulation" where
  "apply_shockwave sim org =
     bind_res (shock_balls org (balls sim)) (\<lambda>bs.
       Inr (sim\<lparr>balls := bs,
                shockwave_effects := shockwave_effects sim @ [\<lparr>origin = org, age = 0\<rparr>]\<rparr>))"

definition toggle_gravity :: "Simulation \<Rightarrow> Simulation" where
  "toggle_gravity sim = sim\<lparr>gravity_on := \<not> gravity_on sim\<rparr>"

definition toggle_pause :: "Simulation \<Rightarrow> Simulation" where
  "toggle_pause sim = sim\<lparr>paused := \<not> paused sim\<rparr>"

definition total_energy :: "Simulation \<Rightarrow> real" where
  "total_energy sim = sum_list (map kinetic_energy (balls sim))"

fun ball_at_list :: "Vector2D \<Rightarrow> Ball list \<Rightarrow> Ball option" where
  "ball_at_list pos [] = None"
| "ball_at_list pos (ball # rest) =
     (if distance_to pos (position ball) \<le> radius ball then Some ball
      else ball_at_list pos rest)"

definition ball_at :: "Simulation \<Rightarrow> Vector2D \<Rightarrow> Ball option" where
  "ball_at sim pos = ball_at_list pos (balls sim)"

section \<open>Notions used to state the properties\<close>


text \<open>\<open>k\<close> successive calls of \<open>update\<close>.\<close>

fun update_times :: "nat \<Rightarrow> Simulation \<Rightarrow> py_error + Simulation" where
  "update_times 0 sim = Inr sim"
| "update_times (Suc k) sim = bind_res (update sim) (update_times k)"

text \<open>Whether the ball hits the left wall in the frame that \<open>update\<close> computes for it.\<close>

definition hits_left :: "bool \<Rightarrow> Ball \<Rightarrow> bool" where
  "hits_left gravity ball =
     (case ball_frame gravity ball of Inl e \<Rightarrow> False | Inr (b, hit_left) \<Rightarrow> hit_left)"

text \<open>Every ball of the simulation has a strictly positive mass.\<close>

definition positive_masses :: "Simulation \<Rightarrow> bool" where
  "positive_masses sim \<longleftrightarrow> (\<forall>m\<in>set (map mass (balls sim)). 0 < m)"

text \<open>
  The states reachable from a new simulation through the public operations. The radius
  drawn by \<open>random.uniform\<close> lies between \<open>MIN_RADIUS\<close> and \<open>MAX_RADIUS\<close>, and a new
  ball object is none of the existing ones.
\<close>

inductive reachable :: "Simulation \<Rightarrow> bool" where
  reach_init: "reachable Simulation_init"
| reach_spawn:
    "reachable sim \<Longrightarrow> MIN_RADIUS \<le> draw_radius rnd \<Longrightarrow> draw_radius rnd \<le> MAX_RADIUS
       \<Longrightarrow> oid \<notin> ident ` set (balls sim)
       \<Longrightarrow> spawn_ball sim oid pos col vel rnd = (res, sim') \<Longrightarrow> reachable sim'"
| reach_update: "reachable sim \<Longrightarrow> update sim = Inr sim' \<Longrightarrow> reachable sim'"
| reach_remove: "reachable sim \<Longrightarrow> reachable (remove_ball sim oid)"
| reach_reset: "reachable sim \<Longrightarrow> reachable (reset sim)"
| reach_shockwave: "reachable sim \<Longrightarrow> apply_shockwave sim org = Inr sim' \<Longrightarrow> reachable sim'"
| reach_toggle_gravity: "reachable sim \<Longrightarrow> reachable (toggle_gravity sim)"
| reach_toggle_pause: "reachable sim \<Longrightarrow> reachable (toggle_pause sim)"

section \<open>Rounded arithmetic\<close>

text \<open>
  \<open>binary64 x\<close> is the double nearest to \<open>x\<close>: 53 significant bits, ties to the even
  significand. The exponent range is not bounded, so overflow to infinity and gradual
  underflow are not modelled. \<open>exact\<close> does not round.
\<close>

definition round_even :: "real \<Rightarrow> int" where
  "round_even x =
     (let f = \<lfloor>x\<rfloor>; d = x - of_int f in
      if d < 1 / 2 then f
      else if 1 / 2 < d then f + 1
      else if even f then f else f + 1)"

definition pow2 :: "int \<Rightarrow> real" where
  "pow2 e = (if 0 \<le> e then 2 ^ nat e else 1 / 2 ^ nat (- e))"

definition binade :: "real \<Rightarrow> int" where
  "binade x = \<lfloor>log 2 \<bar>x\<bar>\<rfloor>"

definition binary64 :: "real \<Rightarrow> real" where
  "binary64 x =
     (if x = 0 then 0
      else (let e = binade x in of_int (round_even (x / pow2 (e - 52))) * pow2 (e - 52)))"

definition exact :: "real \<Rightarrow> real" where
  "exact x = x"

text \<open>
  The functions of \<open>vector2d.py\<close>, \<open>collision.py\<close> and \<open>compute_shockwave_impulse\<close> with every
  float operation rounded by \<open>rnd\<close>, in the order in which Python evaluates them.
  \<open>math.hypot\<close> is one library call and is taken as correctly rounded.
\<close>

definition fdiv_r :: "(real \<Rightarrow> real) \<Rightarrow> real \<Rightarrow> real \<Rightarrow> py_error + real" where
  "fdiv_r rnd a b = (if b = 0 then Inl ZeroDivisionError else Inr (rnd (a / b)))"

definition vec_add_r :: "(real \<Rightarrow> real) \<Rightarrow> Vector2D \<Rightarrow> Vector2D \<Rightarrow> Vector2D" where
  "vec_add_r rnd u v = Vector2D (rnd (vec_x u + vec_x v)) (rnd (vec_y u + vec_y v))"

definition vec_sub_r :: "(real \<Rightarrow> real) \<Rightarrow> Vector2D \<Rightarrow> Vector2D \<Rightarrow> Vector2D" where
  "vec_sub_r rnd u v = Vector2D (rnd (vec_x u - vec_x v)) (rnd (vec_y u - vec_y v))"

definition vec_mul_r :: "(real \<Rightarrow> real) \<Rightarrow> Vector2D \<Rightarrow> real \<Rightarrow> Vector2D" where
  "vec_mul_r rnd v scalar = Vector2D (rnd (vec_x v * scalar)) (rnd (vec_y v * scalar))"

definition magnitude_r :: "(real \<Rightarrow> real) \<Rightarrow> Vector2D \<Rightarrow> real" where
  "magnitude_r rnd v = rnd (sqrt (vec_x v * vec_x v + vec_y v * vec_y v))"

definition magnitude_sq_r :: "(real \<Rightarrow> real) \<Rightarrow> Vector2D \<Rightarrow> real" where
  "magnitude_sq_r rnd v = rnd (rnd (vec_x v * vec_x v) + rnd (vec_y v * vec_y v))"

definition normalized_r :: "(real \<Rightarrow> real) \<Rightarrow> Vector2D \<Rightarrow> py_error + Vector2D" where
  "normalized_r rnd v =
     (let mag = magnitude_r rnd v in
      if mag = 0 then Inr (Vector2D 0 0)
      else bind_res (fdiv_r rnd (vec_x v) mag) (\<lambda>qx.
           bind_res (fdiv_r rnd (vec_y v) mag) (\<lambda>qy.
           Inr (Vector2D qx qy))))"

definition dot_r :: "(real \<Rightarrow> real) \<Rightarrow> Vector2D \<Rightarrow> Vector2D \<Rightarrow> real" where
  "dot_r rnd u v = rnd (rnd (vec_x u * vec_x v) + rnd (vec_y u * vec_y v))"

definition distance_to_r :: "(real \<Rightarrow> real) \<Rightarrow> Vector2D \<Rightarrow> Vector2D \<Rightarrow> real" where
  "distance_to_r rnd u v = magnitude_r rnd (vec_sub_r rnd u v)"

definition distance_sq_to_r :: "(real \<Rightarrow> real) \<Rightarrow> Vector2D \<Rightarrow> Vector2D \<Rightarrow> real" where
  "distance_sq_to_r rnd u v = magnitude_sq_r rnd (vec_sub_r rnd u v)"

definition detect_collision_r ::
  "(real \<Rightarrow> real) \<Rightarrow> Vector2D \<Rightarrow> real \<Rightarrow> Vector2D \<Rightarrow> real \<Rightarrow> bool" where
  "detect_collision_r rnd pos_a radius_a pos_b radius_b =
     (let min_dist = rnd (radius_a + radius_b) in
      distance_sq_to_r rnd pos_a pos_b < rnd (min_dist * min_dist))"

definition collision_normal_r ::
  "(real \<Rightarrow> real) \<Rightarrow> Vector2D \<Rightarrow> Vector2D \<Rightarrow> py_error + (Vector2D \<times> real)" where
  "collision_normal_r rnd pos_a pos_b =
     (let normal = vec_sub_r rnd pos_a pos_b;
          dist = magnitude_r rnd normal;
          (normal, dist) = (if dist = 0 then (Vector2D 1 0, 1) else (normal, dist))
      in bind_res (normalized_r rnd normal) (\<lambda>n. Inr (n, dist)))"

definition resolve_collision_r ::
  "(real \<Rightarrow> real) \<Rightarrow> Vector2D \<Rightarrow> Vector2D \<Rightarrow> real \<Rightarrow> real
     \<Rightarrow> Vector2D \<Rightarrow> Vector2D \<Rightarrow> real \<Rightarrow> real
     \<Rightarrow> py_error + (Vector2D \<times> Vector2D \<times> Vector2D \<times> Vector2D)" where
  "resolve_collision_r rnd pos_a vel_a mass_a radius_a pos_b vel_b mass_b radius_b =
     bind_res (collision_normal_r rnd pos_a pos_b) (\<lambda>(n, dist).
       let rel_vel = vec_sub_r rnd vel_a vel_b;
           vel_along_normal = dot_r rnd rel_vel n
       in
       if vel_along_normal > 0 then
         (let overlap = rnd (rnd (radius_a + radius_b) - dist) in
          if overlap > 0 then
            (let correction = vec_mul_r rnd n (rnd (rnd (overlap / 2) + 0.5)) in
             Inr (vel_a, vel_b, vec_add_r rnd pos_a correction, vec_sub_r rnd pos_b correction))
          else Inr (vel_a, vel_b, pos_a, pos_b))
       else
         (let total_mass = rnd (mass_a + mass_b) in
          bind_res (fdiv_r rnd (rnd (2 * vel_along_normal)) total_mass) (\<lambda>impulse.
            let new_vel_a = vec_sub_r rnd vel_a (vec_mul_r rnd n (rnd (impulse * mass_b)));
                new_vel_b = vec_add_r rnd vel_b (vec_mul_r rnd n (rnd (impulse * mass_a)));
                overlap = rnd (rnd (radius_a + radius_b) - dist)
            in
            if overlap > 0 then
              (let correction = vec_mul_r rnd n (rnd (rnd (overlap / 2) + 0.5)) in
               Inr (new_vel_a, new_vel_b,
                    vec_add_r rnd pos_a correction, vec_sub_r rnd pos_b correction))
            else Inr (new_vel_a, new_vel_b, pos_a, pos_b))))"

definition compute_shockwave_impulse_r ::
  "(real \<Rightarrow> real) \<Rightarrow> Vector2D \<Rightarrow> Vector2D \<Rightarrow> py_error + Vector2D" where
  "compute_shockwave_impulse_r rnd ball_pos shockwave_origin =
     (let delta = vec_sub_r rnd ball_pos shockwave_origin;
          dist = magnitude_r rnd delta
      in if dist > SHOCKWAVE_RADIUS then Inr (Vector2D 0 0)
         else (let safe_dist = max dist 1 in
               bind_res (fdiv_r rnd SHOCKWAVE_STRENGTH safe_dist) (\<lambda>strength.
               bind_res (normalized_r rnd delta) (\<lambda>unit.
               Inr (vec_mul_r rnd unit strength)))))"

section \<open>Facts about vectors\<close>

lemma bind_res_Inr [simp]: "bind_res (Inr v) f = f v"
  by (simp add: bind_res_def)

lemma bind_res_Inl [simp]: "bind_res (Inl e) f = Inl e"
  by (simp add: bind_res_def)

lemma magnitude_nonneg: "0 \<le> magnitude v"
  by (simp add: magnitude_def)

lemma magnitude_sq_nonneg: "0 \<le> magnitude_sq v"
  by (simp add: magnitude_sq_def)

lemma magnitude_square: "magnitude v * magnitude v = magnitude_sq v"
  by (simp add: magnitude_def magnitude_sq_def)

lemma magnitude_zero_iff: "magnitude v = 0 \<longleftrightarrow> v = Vector2D 0 0"
proof (cases v)
  case (Vector2D a b)
  have "a * a + b * b = 0 \<longleftrightarrow> a = 0 \<and> b = 0"
    by (simp add: sum_squares_eq_zero_iff)
  with Vector2D show ?thesis
    by (simp add: magnitude_def)
qed

lemma magnitude_axis: "magnitude (Vector2D a 0) = \<bar>a\<bar>"
  by (simp add: magnitude_def)

section \<open>Collision normal\<close>

lemma normalized_Inr:
  "normalized v = Inr (if magnitude v = 0 then Vector2D 0 0
                       else Vector2D (vec_x v / magnitude v) (vec_y v / magnitude v))"
  by (simp add: normalized_def Let_def fdiv_def)

lemma vec_eq_iff: "u = v \<longleftrightarrow> vec_x u = vec_x v \<and> vec_y u = vec_y v"
  by (cases u; cases v) simp

lemma vec_sub_zero_iff: "vec_sub u v = Vector2D 0 0 \<longleftrightarrow> u = v"
  by (cases u; cases v) (simp add: vec_sub_def)

lemma unit_magnitude_sq:
  assumes "magnitude v \<noteq> 0"
  shows "magnitude_sq (Vector2D (vec_x v / magnitude v) (vec_y v / magnitude v)) = 1"
proof -
  have "magnitude_sq (Vector2D (vec_x v / magnitude v) (vec_y v / magnitude v))
          = magnitude_sq v / (magnitude v * magnitude v)"
    by (simp add: magnitude_sq_def add_divide_distrib)
  also have "\<dots> = 1"
    using assms by (simp add: magnitude_square [symmetric])
  finally show ?thesis .
qed

lemma collision_normal_distinct:
  assumes "pos_a \<noteq> pos_b"
  shows "collision_normal pos_a pos_b =
           Inr (Vector2D (vec_x (vec_sub pos_a pos_b) / distance_to pos_a pos_b)
                         (vec_y (vec_sub pos_a pos_b) / distance_to pos_a pos_b),
                distance_to pos_a pos_b)"
  using assms
  by (simp add: collision_normal_def Let_def normalized_Inr distance_to_def
      magnitude_zero_iff vec_sub_zero_iff)

lemma collision_normal_coincident:
  "collision_normal p p = Inr (Vector2D 1 0, 1)"
  by (simp add: collision_normal_def Let_def normalized_Inr magnitude_zero_iff
      vec_sub_zero_iff magnitude_axis)

lemma collision_normal_unit:
  "\<exists>n dist. collision_normal pos_a pos_b = Inr (n, dist) \<and> magnitude_sq n = 1 \<and> 0 < dist"
proof (cases "pos_a = pos_b")
  case True
  then show ?thesis
    by (simp add: collision_normal_coincident magnitude_sq_def)
next
  case False
  then have nz: "magnitude (vec_sub pos_a pos_b) \<noteq> 0"
    by (simp add: magnitude_zero_iff vec_sub_zero_iff)
  then have "0 < distance_to pos_a pos_b"
    using magnitude_nonneg [of "vec_sub pos_a pos_b"] by (simp add: distance_to_def)
  with False nz show ?thesis
    using unit_magnitude_sq [OF nz]
    by (simp add: collision_normal_distinct distance_to_def)
qed

lemma magnitude_vec_mul: "magnitude (vec_mul v s) = magnitude v * \<bar>s\<bar>"
proof -
  have "vec_x v * s * (vec_x v * s) + vec_y v * s * (vec_y v * s)
          = (vec_x v * vec_x v + vec_y v * vec_y v) * (s * s)"
    by (simp add: algebra_simps)
  then show ?thesis
    by (simp add: magnitude_def vec_mul_def real_sqrt_mult)
qed


lemma detect_collision_touching:
  assumes eq: "distance_to pos_a pos_b = radius_a + radius_b"
  shows "\<not> detect_collision pos_a radius_a pos_b radius_b"
proof -
  have "distance_sq_to pos_a pos_b = distance_to pos_a pos_b * distance_to pos_a pos_b"
    by (simp add: distance_sq_to_def distance_to_def magnitude_square)
  then have "distance_sq_to pos_a pos_b = (radius_a + radius_b) * (radius_a + radius_b)"
    by (simp add: eq)
  then show ?thesis
    by (simp add: detect_collision_def Let_def)
qed

section \<open>Collision resolution\<close>

lemma resolve_collision_unfold:
  assumes "collision_normal pos_a pos_b = Inr (n, dst)"
  shows "resolve_collision pos_a vel_a mass_a radius_a pos_b vel_b mass_b radius_b =
     (if dot (vec_sub vel_a vel_b) n > 0 then
        (if (radius_a + radius_b) - dst > 0 then
           Inr (vel_a, vel_b,
                vec_add pos_a (vec_mul n (((radius_a + radius_b) - dst) / 2 + 0.5)),
                vec_sub pos_b (vec_mul n (((radius_a + radius_b) - dst) / 2 + 0.5)))
         else Inr (vel_a, vel_b, pos_a, pos_b))
      else
        bind_res (fdiv (2 * dot (vec_sub vel_a vel_b) n) (mass_a + mass_b)) (\<lambda>impulse.
          if (radius_a + radius_b) - dst > 0 then
            Inr (vec_sub vel_a (vec_mul n (impulse * mass_b)),
                 vec_add vel_b (vec_mul n (impulse * mass_a)),
                 vec_add pos_a (vec_mul n (((radius_a + radius_b) - dst) / 2 + 0.5)),
                 vec_sub pos_b (vec_mul n (((radius_a + radius_b) - dst) / 2 + 0.5)))
          else
            Inr (vec_sub vel_a (vec_mul n (impulse * mass_b)),
                 vec_add vel_b (vec_mul n (impulse * mass_a)), pos_a, pos_b)))"
  by (simp add: resolve_collision_def assms Let_def)

lemma correction_cancels: "vec_add (vec_add p c) (vec_sub q c) = vec_add p q"
  by (simp add: vec_add_def vec_sub_def)

lemma resolve_collision_exact_midpoint:
  "(mass_a + mass_b \<noteq> 0 \<longrightarrow>
      (\<exists>r. resolve_collision pos_a vel_a mass_a radius_a pos_b vel_b mass_b radius_b = Inr r))
   \<and> (\<forall>new_vel_a new_vel_b new_pos_a new_pos_b.
        resolve_collision pos_a vel_a mass_a radius_a pos_b vel_b mass_b radius_b
          = Inr (new_vel_a, new_vel_b, new_pos_a, new_pos_b)
        \<longrightarrow> vec_add new_pos_a new_pos_b = vec_add pos_a pos_b)"
proof -
  obtain n dst where cn: "collision_normal pos_a pos_b = Inr (n, dst)"
    using collision_normal_unit [of pos_a pos_b] by blast
  have returns: "\<exists>r. resolve_collision pos_a vel_a mass_a radius_a pos_b vel_b mass_b radius_b = Inr r"
    if "mass_a + mass_b \<noteq> 0"
    using that by (simp add: resolve_collision_unfold [OF cn] fdiv_def)
  have sum: "vec_add new_pos_a new_pos_b = vec_add pos_a pos_b"
    if "resolve_collision pos_a vel_a mass_a radius_a pos_b vel_b mass_b radius_b
          = Inr (new_vel_a, new_vel_b, new_pos_a, new_pos_b)"
    for new_vel_a new_vel_b new_pos_a new_pos_b
    using that
    by (auto simp add: resolve_collision_unfold [OF cn] fdiv_def correction_cancels
        split: if_splits)
  from returns sum show ?thesis by blast
qed

text \<open>
  C8. When the relative velocity along the collision normal is strictly positive,
  \<open>resolve_collision\<close> returns the input velocities unchanged; the positions are pushed
  apart along the normal by \<open>overlap / 2 + 0.5\<close> when the overlap is positive and are
  unchanged otherwise.
\<close>

theorem resolve_collision_separating:
  "\<exists>n dst. collision_normal pos_a pos_b = Inr (n, dst) \<and>
     (dot (vec_sub vel_a vel_b) n > 0 \<longrightarrow>
        resolve_collision pos_a vel_a mass_a radius_a pos_b vel_b mass_b radius_b =
          (if (radius_a + radius_b) - dst > 0
           then Inr (vel_a, vel_b,
                     vec_add pos_a (vec_mul n (((radius_a + radius_b) - dst) / 2 + 0.5)),
                     vec_sub pos_b (vec_mul n (((radius_a + radius_b) - dst) / 2 + 0.5)))
           else Inr (vel_a, vel_b, pos_a, pos_b)))"
proof -
  obtain n dst where cn: "collision_normal pos_a pos_b = Inr (n, dst)"
    using collision_normal_unit [of pos_a pos_b] by blast
  then show ?thesis
    by (simp add: resolve_collision_unfold [OF cn])
qed


section \<open>Separation of overlapping circles\<close>





section \<open>Collision examples\<close>

lemma collision_normal_example:
  "collision_normal (Vector2D 0 0) (Vector2D 15 0) = Inr (Vector2D (- 1) 0, 15)"
proof -
  have "Vector2D 0 0 \<noteq> Vector2D 15 0" by simp
  then show ?thesis
    by (simp add: collision_normal_distinct distance_to_def vec_sub_def magnitude_axis)
qed

lemma resolve_collision_example:
  "resolve_collision (Vector2D 0 0) (Vector2D 5 0) 1 10 (Vector2D 15 0) (Vector2D (- 3) 0) 1 10
     = Inr (Vector2D (- 3) 0, Vector2D 5 0, Vector2D (- 3) 0, Vector2D 18 0)"
  by (simp add: resolve_collision_unfold [OF collision_normal_example] fdiv_def
      dot_def vec_sub_def vec_add_def vec_mul_def)

theorem resolve_collision_separating_witness:
  "dot (vec_sub (Vector2D (- 5) 0) (Vector2D 5 0)) (Vector2D (- 1) 0) > 0
   \<and> resolve_collision (Vector2D 0 0) (Vector2D (- 5) 0) 1 10 (Vector2D 15 0) (Vector2D 5 0) 1 10
       = Inr (Vector2D (- 5) 0, Vector2D 5 0, Vector2D (- 3) 0, Vector2D 18 0)"
proof -
  have sep: "dot (vec_sub (Vector2D (- 5) 0) (Vector2D 5 0)) (Vector2D (- 1) 0) > 0"
    by (simp add: dot_def vec_sub_def)
  obtain n dst where cn: "collision_normal (Vector2D 0 0) (Vector2D 15 0) = Inr (n, dst)"
    and imp: "dot (vec_sub (Vector2D (- 5) 0) (Vector2D 5 0)) n > 0 \<longrightarrow>
        resolve_collision (Vector2D 0 0) (Vector2D (- 5) 0) 1 10 (Vector2D 15 0) (Vector2D 5 0) 1 10 =
          (if (10 + 10) - dst > 0
           then Inr (Vector2D (- 5) 0, Vector2D 5 0,
                     vec_add (Vector2D 0 0) (vec_mul n (((10 + 10) - dst) / 2 + 0.5)),
                     vec_sub (Vector2D 15 0) (vec_mul n (((10 + 10) - dst) / 2 + 0.5)))
           else Inr (Vector2D (- 5) 0, Vector2D 5 0, Vector2D 0 0, Vector2D 15 0))"
    using resolve_collision_separating
            [of "Vector2D 0 0" "Vector2D 15 0" "Vector2D (- 5) 0" "Vector2D 5 0" 1 10 1 10]
    by blast
  from cn have n: "n = Vector2D (- 1) 0" and dst: "dst = 15"
    by (simp_all add: collision_normal_example)
  from imp sep have "resolve_collision (Vector2D 0 0) (Vector2D (- 5) 0) 1 10 (Vector2D 15 0) (Vector2D 5 0) 1 10
       = Inr (Vector2D (- 5) 0, Vector2D 5 0, Vector2D (- 3) 0, Vector2D 18 0)"
    unfolding n dst by (simp add: vec_add_def vec_sub_def vec_mul_def)
  with sep show ?thesis by blast
qed


section \<open>Collision detection\<close>

lemma detect_collision_exact_strict:
  "(detect_collision pos_a radius_a pos_b radius_b
      \<longleftrightarrow> distance_sq_to pos_a pos_b < (radius_a + radius_b)\<^sup>2)
   \<and> (distance_to pos_a pos_b = radius_a + radius_b
        \<longrightarrow> \<not> detect_collision pos_a radius_a pos_b radius_b)"
  using detect_collision_touching [of pos_a pos_b radius_a radius_b]
  by (simp add: detect_collision_def Let_def power2_eq_square)

section \<open>Shockwave impulse\<close>

lemma magnitude_sqrt_sq: "magnitude v = sqrt (magnitude_sq v)"
  by (simp add: magnitude_def magnitude_sq_def)

lemma unit_magnitude:
  assumes "magnitude v \<noteq> 0"
  shows "magnitude (Vector2D (vec_x v / magnitude v) (vec_y v / magnitude v)) = 1"
  using unit_magnitude_sq [OF assms] by (simp add: magnitude_sqrt_sq)

lemma shockwave_inside:
  assumes "magnitude (vec_sub ball_pos org) \<le> SHOCKWAVE_RADIUS"
  shows "\<exists>unit. normalized (vec_sub ball_pos org) = Inr unit
           \<and> compute_shockwave_impulse ball_pos org
               = Inr (vec_mul unit (SHOCKWAVE_STRENGTH / max (magnitude (vec_sub ball_pos org)) 1))"
proof -
  have "max (magnitude (vec_sub ball_pos org)) 1 \<noteq> 0"
    by (simp add: max_def)
  with assms show ?thesis
    by (simp add: compute_shockwave_impulse_def Let_def fdiv_def normalized_Inr
        del: max.absorb1 max.absorb2 max.absorb3 max.absorb4)
qed

lemma shockwave_magnitude:
  assumes far: "1 < distance_to ball_pos org" and near: "distance_to ball_pos org \<le> SHOCKWAVE_RADIUS"
  shows "\<exists>impulse. compute_shockwave_impulse ball_pos org = Inr impulse
           \<and> magnitude impulse = SHOCKWAVE_STRENGTH / distance_to ball_pos org"
proof -
  define d where "d = magnitude (vec_sub ball_pos org)"
  have d1: "1 < d" using far by (simp add: d_def distance_to_def)
  then have nz: "magnitude (vec_sub ball_pos org) \<noteq> 0" by (simp add: d_def)
  have "compute_shockwave_impulse ball_pos org
          = Inr (vec_mul (Vector2D (vec_x (vec_sub ball_pos org) / d) (vec_y (vec_sub ball_pos org) / d))
                   (SHOCKWAVE_STRENGTH / d))"
    using near d1
    by (simp add: compute_shockwave_impulse_def Let_def fdiv_def normalized_Inr
        distance_to_def d_def [symmetric] max_def)
  moreover have "magnitude (vec_mul (Vector2D (vec_x (vec_sub ball_pos org) / d)
                                        (vec_y (vec_sub ball_pos org) / d))
                              (SHOCKWAVE_STRENGTH / d)) = SHOCKWAVE_STRENGTH / d"
    using unit_magnitude [OF nz] d1
    by (simp add: magnitude_vec_mul d_def [symmetric] SHOCKWAVE_STRENGTH_def)
  ultimately show ?thesis
    by (simp add: distance_to_def d_def)
qed

lemma shockwave_impulse_exact_cases:
  "(distance_to ball_pos org > SHOCKWAVE_RADIUS
      \<longrightarrow> compute_shockwave_impulse ball_pos org = Inr (Vector2D 0 0))
   \<and> (distance_to ball_pos org = 0
      \<longrightarrow> compute_shockwave_impulse ball_pos org = Inr (Vector2D 0 0))
   \<and> (distance_to ball_pos org \<le> SHOCKWAVE_RADIUS
      \<longrightarrow> (\<exists>unit. normalized (vec_sub ball_pos org) = Inr unit
             \<and> compute_shockwave_impulse ball_pos org
                 = Inr (vec_mul unit (SHOCKWAVE_STRENGTH / max (distance_to ball_pos org) 1))))
   \<and> (1 < distance_to ball_pos org \<and> distance_to ball_pos org < distance_to farther org
        \<and> distance_to farther org \<le> SHOCKWAVE_RADIUS
      \<longrightarrow> (\<exists>impulse impulse'.
             compute_shockwave_impulse ball_pos org = Inr impulse
             \<and> compute_shockwave_impulse farther org = Inr impulse'
             \<and> magnitude impulse' < magnitude impulse))"
proof -
  have outside: "compute_shockwave_impulse ball_pos org = Inr (Vector2D 0 0)"
    if "distance_to ball_pos org > SHOCKWAVE_RADIUS"
    using that by (simp add: compute_shockwave_impulse_def Let_def distance_to_def)
  have centre: "compute_shockwave_impulse ball_pos org = Inr (Vector2D 0 0)"
    if "distance_to ball_pos org = 0"
    using that
    by (simp add: compute_shockwave_impulse_def Let_def distance_to_def fdiv_def
        normalized_Inr SHOCKWAVE_RADIUS_def vec_mul_def)
  have inside: "\<exists>unit. normalized (vec_sub ball_pos org) = Inr unit
             \<and> compute_shockwave_impulse ball_pos org
                 = Inr (vec_mul unit (SHOCKWAVE_STRENGTH / max (distance_to ball_pos org) 1))"
    if "distance_to ball_pos org \<le> SHOCKWAVE_RADIUS"
    using that shockwave_inside [of ball_pos org] by (simp add: distance_to_def)
  have falloff: "\<exists>impulse impulse'.
             compute_shockwave_impulse ball_pos org = Inr impulse
             \<and> compute_shockwave_impulse farther org = Inr impulse'
             \<and> magnitude impulse' < magnitude impulse"
    if far: "1 < distance_to ball_pos org"
      and lt: "distance_to ball_pos org < distance_to farther org"
      and near: "distance_to farther org \<le> SHOCKWAVE_RADIUS"
  proof -
    obtain impulse where i: "compute_shockwave_impulse ball_pos org = Inr impulse"
      and mi: "magnitude impulse = SHOCKWAVE_STRENGTH / distance_to ball_pos org"
      using shockwave_magnitude [of ball_pos org] far lt near by auto
    obtain impulse' where i': "compute_shockwave_impulse farther org = Inr impulse'"
      and mi': "magnitude impulse' = SHOCKWAVE_STRENGTH / distance_to farther org"
      using shockwave_magnitude [of farther org] far lt near by auto
    have "SHOCKWAVE_STRENGTH / distance_to farther org
            < SHOCKWAVE_STRENGTH / distance_to ball_pos org"
      using far lt by (simp add: SHOCKWAVE_STRENGTH_def frac_less2)
    with i i' mi mi' show ?thesis by simp
  qed
  from outside centre inside falloff show ?thesis by blast
qed

section \<open>Shockwave example, failure modes, spawning and pausing\<close>

lemma distance_to_same_row: "distance_to (Vector2D a c) (Vector2D b c) = \<bar>a - b\<bar>"
  by (simp add: distance_to_def vec_sub_def magnitude_axis)

lemma normalized_returns: "\<exists>unit. normalized v = Inr unit"
  by (simp add: normalized_Inr)

lemma clamped_returns: "\<exists>u. clamped v m = Inr u"
  by (simp add: clamped_def normalized_Inr)

lemma compute_shockwave_impulse_returns: "\<exists>impulse. compute_shockwave_impulse ball_pos org = Inr impulse"
proof (cases "distance_to ball_pos org \<le> SHOCKWAVE_RADIUS")
  case True
  then show ?thesis
    using shockwave_inside [of ball_pos org] by (auto simp add: distance_to_def)
next
  case False
  then show ?thesis
    by (simp add: compute_shockwave_impulse_def Let_def distance_to_def)
qed

lemma resolve_collision_returns:
  assumes "mass_a + mass_b \<noteq> 0"
  shows "\<exists>r. resolve_collision pos_a vel_a mass_a radius_a pos_b vel_b mass_b radius_b = Inr r"
proof -
  obtain n dst where cn: "collision_normal pos_a pos_b = Inr (n, dst)"
    using collision_normal_unit [of pos_a pos_b] by blast
  show ?thesis
    using assms by (simp add: resolve_collision_unfold [OF cn] fdiv_def)
qed

text \<open>
  C7. Dividing a vector by the scalar zero raises \<open>ZeroDivisionError\<close>; dividing by a
  non-zero scalar returns the component-wise quotient. Normalising never raises (the zero
  vector gives the zero vector), resolving a collision of coincident centres with positive
  masses does not raise, and the shockwave impulse never raises (at the epicentre it is the
  zero vector).
\<close>

theorem division_by_zero_only_failure:
  "vec_truediv v 0 = Inl ZeroDivisionError
   \<and> (scalar \<noteq> 0 \<longrightarrow> vec_truediv v scalar = Inr (Vector2D (vec_x v / scalar) (vec_y v / scalar)))
   \<and> normalized (Vector2D 0 0) = Inr (Vector2D 0 0)
   \<and> (\<exists>unit. normalized w = Inr unit)
   \<and> (0 < mass_a \<and> 0 < mass_b \<longrightarrow>
        (\<exists>r. resolve_collision p vel_a mass_a radius_a p vel_b mass_b radius_b = Inr r))
   \<and> compute_shockwave_impulse p p = Inr (Vector2D 0 0)
   \<and> (\<exists>impulse. compute_shockwave_impulse ball_pos org = Inr impulse)"
proof -
  have zero: "vec_truediv v 0 = Inl ZeroDivisionError"
    by (simp add: vec_truediv_def fdiv_def)
  have nonzero: "vec_truediv v scalar = Inr (Vector2D (vec_x v / scalar) (vec_y v / scalar))"
    if "scalar \<noteq> 0"
    using that by (simp add: vec_truediv_def fdiv_def)
  have norm0: "normalized (Vector2D 0 0) = Inr (Vector2D 0 0)"
    by (simp add: normalized_Inr magnitude_axis)
  have res: "\<exists>r. resolve_collision p vel_a mass_a radius_a p vel_b mass_b radius_b = Inr r"
    if "0 < mass_a \<and> 0 < mass_b"
    using that resolve_collision_returns [of mass_a mass_b p vel_a radius_a p vel_b radius_b]
    by simp
  have "distance_to p p = 0"
    by (simp add: distance_to_def vec_sub_def magnitude_axis)
  then have shock0: "compute_shockwave_impulse p p = Inr (Vector2D 0 0)"
    by (simp add: compute_shockwave_impulse_def Let_def distance_to_def fdiv_def
        normalized_Inr SHOCKWAVE_RADIUS_def vec_mul_def)
  from zero nonzero norm0 normalized_returns [of w] res shock0
    compute_shockwave_impulse_returns [of ball_pos org]
  show ?thesis by blast
qed

theorem division_by_zero_only_failure_witness:
  "vec_truediv (Vector2D 1 1) 0 = Inl ZeroDivisionError
   \<and> (3::real) \<noteq> 0
   \<and> vec_truediv (Vector2D 6 9) 3 = Inr (Vector2D 2 3)
   \<and> (0::real) < 1
   \<and> (\<exists>r. resolve_collision (Vector2D 5 5) (Vector2D 1 0) 1 5 (Vector2D 5 5) (Vector2D (- 1) 0) 1 5 = Inr r)"
proof -
  have nz: "(3::real) \<noteq> 0" and pos: "(0::real) < 1" by simp_all
  have "vec_truediv (Vector2D 6 9) 3 = Inr (Vector2D (vec_x (Vector2D 6 9) / 3) (vec_y (Vector2D 6 9) / 3))"
    using division_by_zero_only_failure [of "Vector2D 6 9" 3, THEN conjunct2, THEN conjunct1] nz
    by (rule mp)
  then have q: "vec_truediv (Vector2D 6 9) 3 = Inr (Vector2D 2 3)"
    by simp
  note inst = division_by_zero_only_failure [of "Vector2D 1 1" 3 "Vector2D 0 0" 1 1 "Vector2D 5 5"
      "Vector2D 1 0" 5 "Vector2D (- 1) 0" 5 "Vector2D 0 0" "Vector2D 0 0"]
  have z: "vec_truediv (Vector2D 1 1) 0 = Inl ZeroDivisionError"
    using inst by (rule conjunct1)
  have r: "\<exists>r. resolve_collision (Vector2D 5 5) (Vector2D 1 0) 1 5 (Vector2D 5 5) (Vector2D (- 1) 0) 1 5 = Inr r"
    using inst [THEN conjunct2, THEN conjunct2, THEN conjunct2, THEN conjunct2, THEN conjunct1]
      pos by simp
  from z nz q pos r show ?thesis
    by (intro conjI)
qed

lemma spawn_overlaps_iff:
  "spawn_overlaps pos r bs \<longleftrightarrow> (\<exists>b\<in>set bs. distance_to pos (position b) < r + radius b)"
  by (induction bs) auto

text \<open>
  C5. \<open>spawn_ball\<close> returns no ball and the unchanged simulation when some existing ball is
  closer than the average test radius \<open>(MIN_RADIUS + MAX_RADIUS) / 2\<close> plus its own radius,
  and also when some existing ball is closer than the new ball's actual radius plus its own
  radius; when neither check rejects, the new ball is returned and appended, and the number
  of balls grows by one.
\<close>

theorem spawn_ball_double_check:
  "((\<exists>b\<in>set (balls sim). distance_to pos (position b) < (MIN_RADIUS + MAX_RADIUS) / 2 + radius b)
      \<longrightarrow> spawn_ball sim oid pos col vel rnd = (None, sim))
   \<and> ((\<exists>b\<in>set (balls sim).
          distance_to pos (position b) < radius (create_random oid pos col vel rnd) + radius b)
      \<longrightarrow> spawn_ball sim oid pos col vel rnd = (None, sim))
   \<and> (\<not> (\<exists>b\<in>set (balls sim). distance_to pos (position b) < (MIN_RADIUS + MAX_RADIUS) / 2 + radius b)
       \<and> \<not> (\<exists>b\<in>set (balls sim).
              distance_to pos (position b) < radius (create_random oid pos col vel rnd) + radius b)
      \<longrightarrow> (\<exists>ball sim'. spawn_ball sim oid pos col vel rnd = (Some ball, sim')
             \<and> ball = create_random oid pos col vel rnd
             \<and> balls sim' = balls sim @ [ball]
             \<and> length (balls sim') = length (balls sim) + 1))"
  by (simp add: spawn_ball_def Let_def spawn_overlaps_iff save_initial_state_def)

lemma update_paused: "paused sim \<Longrightarrow> update sim = Inr sim"
  by (simp add: update_def)

text \<open>
  C6. While \<open>paused\<close> is true, \<open>update\<close> returns the simulation it was given, and so does
  any number of successive calls: balls, timer, effects and mode flags are all unchanged.
\<close>

theorem update_paused_noop:
  assumes "paused sim"
  shows "update sim = Inr sim \<and> update_times k sim = Inr sim"
proof -
  have "update_times k sim = Inr sim"
    using assms by (induction k) (simp_all add: update_paused)
  with assms show ?thesis
    by (simp add: update_paused)
qed

section \<open>One ball for one frame\<close>

lemma bind_res_projr: "\<not> isl m \<Longrightarrow> bind_res m f = f (projr m)"
  by (cases m) simp_all

lemma bind_res_returns_iff:
  "bind_res m f = Inr r \<longleftrightarrow> (\<exists>v. m = Inr v \<and> f v = Inr r)"
  by (cases m) simp_all

lemma not_isl_normalized: "\<not> isl (normalized v)"
  by (simp add: normalized_Inr)

lemma not_isl_clamped: "\<not> isl (clamped v m)"
  by (simp add: clamped_def normalized_Inr)

lemma not_isl_compute_wall_boost: "\<not> isl (compute_wall_boost v)"
  by (simp add: compute_wall_boost_def Let_def not_isl_clamped)

lemma not_isl_compute_shockwave_impulse: "\<not> isl (compute_shockwave_impulse ball_pos org)"
  using compute_shockwave_impulse_returns [of ball_pos org] by auto

lemma clamp_speed_Inr:
  "clamp_speed b m = Inr (b\<lparr>velocity := projr (clamped (velocity b) m)\<rparr>)"
  by (simp add: clamp_speed_def bind_res_projr not_isl_clamped)

lemma handle_wall_bounce_mass: "mass (fst (handle_wall_bounce b w h)) = mass b"
  by (simp add: handle_wall_bounce_def Let_def split_def)

lemma handle_wall_bounce_gravity_mass: "mass (fst (handle_wall_bounce_gravity b w h)) = mass b"
  by (simp add: handle_wall_bounce_gravity_def Let_def split_def)

lemma ball_frame_gravity:
  "\<exists>b' h. ball_frame True b = Inr (b', h) \<and> mass b' = mass b"
  by (simp add: ball_frame_def Let_def split_def bind_res_projr not_isl_compute_wall_boost
      clamp_speed_Inr update_position_def handle_wall_bounce_gravity_mass)

lemma ball_frame_surface:
  assumes "0 \<le> mass b"
  shows "\<exists>b' h. ball_frame False b = Inr (b', h) \<and> mass b' = mass b"
  using assms
  by (simp add: ball_frame_def Let_def split_def bind_res_projr not_isl_compute_wall_boost
      clamp_speed_Inr update_position_def handle_wall_bounce_mass
      apply_surface_friction_def math_sqrt_def)

lemma ball_frame_returns:
  assumes "0 \<le> mass b"
  shows "\<exists>b' h. ball_frame gravity b = Inr (b', h) \<and> mass b' = mass b"
  using assms ball_frame_gravity [of b] ball_frame_surface [of b] by (cases gravity) simp_all

lemma ball_frame_mass:
  assumes "ball_frame gravity b = Inr (b', h)"
  shows "mass b' = mass b"
proof (cases gravity)
  case True
  with assms ball_frame_gravity [of b] show ?thesis by auto
next
  case False
  with assms have "0 \<le> mass b"
    by (auto simp add: ball_frame_def apply_surface_friction_def math_sqrt_def
        bind_res_returns_iff split: if_splits)
  with assms False ball_frame_surface [of b] show ?thesis by auto
qed

section \<open>The loops of update\<close>

lemma move_balls_result:
  assumes "move_balls gravity bs timer = Inr (bs', timer')"
  shows "map mass bs' = map mass bs
         \<and> timer' = (if \<exists>b\<in>set bs. hits_left gravity b then WALL_GLOW_DURATION else timer)"
  using assms
proof (induction bs arbitrary: timer bs' timer')
  case Nil
  then show ?case by simp
next
  case (Cons ball rest)
  from Cons.prems obtain b' h rest' where
    frame: "ball_frame gravity ball = Inr (b', h)"
    and rec: "move_balls gravity rest (if h then WALL_GLOW_DURATION else timer) = Inr (rest', timer')"
    and out: "bs' = b' # rest'"
    by (auto simp add: bind_res_returns_iff Let_def)
  have hit: "hits_left gravity ball = h"
    by (simp add: hits_left_def frame)
  from Cons.IH [OF rec] have ih: "map mass rest' = map mass rest"
    and t: "timer' = (if \<exists>b\<in>set rest. hits_left gravity b then WALL_GLOW_DURATION
                      else (if h then WALL_GLOW_DURATION else timer))"
    by simp_all
  from ih out ball_frame_mass [OF frame] have "map mass bs' = map mass (ball # rest)"
    by simp
  moreover from t hit
  have "timer' = (if \<exists>b\<in>set (ball # rest). hits_left gravity b then WALL_GLOW_DURATION else timer)"
    by auto
  ultimately show ?case by simp
qed

lemma move_balls_returns:
  assumes "\<forall>b\<in>set bs. 0 \<le> mass b"
  shows "\<exists>r. move_balls gravity bs timer = Inr r"
  using assms
proof (induction bs arbitrary: timer)
  case Nil
  then show ?case by simp
next
  case (Cons ball rest)
  then obtain b' h where frame: "ball_frame gravity ball = Inr (b', h)"
    using ball_frame_returns [of ball gravity] by auto
  from Cons obtain r where "move_balls gravity rest (if h then WALL_GLOW_DURATION else timer) = Inr r"
    by fastforce
  with frame show ?case
    by (cases r) (simp add: Let_def)
qed

lemma map_update_same: "(map f xs)[i := f (xs ! i)] = map f xs"
proof (cases "i < length xs")
  case True
  then have "(map f xs)[i := f (xs ! i)] = (map f xs)[i := map f xs ! i]"
    by simp
  then show ?thesis
    by (simp only: list_update_id)
next
  case False
  then have "length (map f xs) \<le> i" by simp
  then show ?thesis by (rule list_update_beyond)
qed

lemma collide_pair_mass:
  assumes "collide_pair i j bs = Inr bs'"
  shows "map mass bs' = map mass bs"
  using assms
  by (auto simp add: collide_pair_def Let_def bind_res_returns_iff map_update
      map_update_same split: if_splits)

lemma collide_pair_returns:
  assumes "i < length bs" and "j < length bs" and "\<forall>m\<in>set (map mass bs). 0 < m"
  shows "\<exists>bs'. collide_pair i j bs = Inr bs'"
proof -
  have "0 < mass (bs ! i)" and "0 < mass (bs ! j)"
    using assms by simp_all
  then have "mass (bs ! i) + mass (bs ! j) \<noteq> 0"
    by simp
  from resolve_collision_returns [OF this]
  obtain r where "resolve_collision (position (bs ! i)) (velocity (bs ! i)) (mass (bs ! i))
      (radius (bs ! i)) (position (bs ! j)) (velocity (bs ! j)) (mass (bs ! j)) (radius (bs ! j))
      = Inr r"
    by blast
  then show ?thesis
    by (cases r) (simp add: collide_pair_def Let_def)
qed

lemma collide_row_mass:
  assumes "collide_row i js bs = Inr bs'"
  shows "map mass bs' = map mass bs"
  using assms
proof (induction js arbitrary: bs)
  case Nil
  then show ?case by simp
next
  case (Cons j js)
  then show ?case
    by (auto simp add: bind_res_returns_iff dest: collide_pair_mass)
qed

lemma collide_row_returns:
  assumes "i < length bs" and "\<forall>j\<in>set js. j < length bs" and "\<forall>m\<in>set (map mass bs). 0 < m"
  shows "\<exists>bs'. collide_row i js bs = Inr bs'"
  using assms
proof (induction js arbitrary: bs)
  case Nil
  then show ?case by simp
next
  case (Cons j js)
  then obtain bs1 where step: "collide_pair i j bs = Inr bs1"
    using collide_pair_returns [of i bs j] by auto
  from collide_pair_mass [OF step] have m: "map mass bs1 = map mass bs" .
  then have "length bs1 = length bs"
    using length_map [of mass bs1] length_map [of mass bs] by simp
  with Cons.prems m have "\<exists>bs'. collide_row i js bs1 = Inr bs'"
    by (intro Cons.IH) simp_all
  with step show ?case by simp
qed

lemma collide_rows_mass:
  assumes "collide_rows n is bs = Inr bs'"
  shows "map mass bs' = map mass bs"
  using assms
proof (induction "is" arbitrary: bs)
  case Nil
  then show ?case by simp
next
  case (Cons i "is")
  then show ?case
    by (auto simp add: bind_res_returns_iff dest: collide_row_mass)
qed

lemma collide_rows_returns:
  assumes "n = length bs" and "\<forall>i\<in>set is. i < n" and "\<forall>m\<in>set (map mass bs). 0 < m"
  shows "\<exists>bs'. collide_rows n is bs = Inr bs'"
  using assms
proof (induction "is" arbitrary: bs)
  case Nil
  then show ?case by simp
next
  case (Cons i "is")
  then obtain bs1 where step: "collide_row i [i + 1 ..< n] bs = Inr bs1"
    using collide_row_returns [of i bs "[i + 1 ..< n]"] by auto
  from collide_row_mass [OF step] have m: "map mass bs1 = map mass bs" .
  then have "length bs1 = length bs"
    using length_map [of mass bs1] length_map [of mass bs] by simp
  with Cons.prems m have "\<exists>bs'. collide_rows n is bs1 = Inr bs'"
    by (intro Cons.IH) simp_all
  with step show ?case by simp
qed

lemma pairwise_collisions_mass:
  assumes "pairwise_collisions bs = Inr bs'"
  shows "map mass bs' = map mass bs"
  using assms by (simp add: pairwise_collisions_def Let_def collide_rows_mass)

lemma pairwise_collisions_returns:
  assumes "\<forall>m\<in>set (map mass bs). 0 < m"
  shows "\<exists>bs'. pairwise_collisions bs = Inr bs'"
  using assms collide_rows_returns [of "length bs" bs "[0 ..< length bs]"]
  by (simp add: pairwise_collisions_def Let_def)

lemma update_result:
  assumes run: "\<not> paused sim" and upd: "update sim = Inr sim'"
  shows "map mass (balls sim') = map mass (balls sim)
         \<and> wall_glow_timer sim' =
             (let timer = (if \<exists>b\<in>set (balls sim). hits_left (gravity_on sim) b
                           then WALL_GLOW_DURATION else wall_glow_timer sim)
              in if timer > 0 then timer - 1 else timer)"
proof -
  from run upd obtain bs timer bs' where
    mv: "move_balls (gravity_on sim) (balls sim) (wall_glow_timer sim) = Inr (bs, timer)"
    and pc: "pairwise_collisions bs = Inr bs'"
    and out: "sim' = sim\<lparr>balls := bs', wall_glow_timer := (if timer > 0 then timer - 1 else timer),
                          shockwave_effects := age_effects (shockwave_effects sim)\<rparr>"
    by (auto simp add: update_def bind_res_returns_iff Let_def)
  from move_balls_result [OF mv] pairwise_collisions_mass [OF pc] out show ?thesis
    by (simp add: Let_def)
qed

lemma update_returns:
  assumes "positive_masses sim"
  shows "\<exists>sim'. update sim = Inr sim'"
proof (cases "paused sim")
  case True
  then show ?thesis by (simp add: update_def)
next
  case False
  have "\<forall>b\<in>set (balls sim). 0 \<le> mass b"
    using assms by (auto simp add: positive_masses_def less_imp_le)
  from move_balls_returns [OF this]
  obtain bs timer where
    mv: "move_balls (gravity_on sim) (balls sim) (wall_glow_timer sim) = Inr (bs, timer)"
    by fastforce
  from move_balls_result [OF mv] assms have "\<forall>m\<in>set (map mass bs). 0 < m"
    by (simp add: positive_masses_def)
  from pairwise_collisions_returns [OF this] obtain bs' where "pairwise_collisions bs = Inr bs'"
    by blast
  with mv False show ?thesis
    by (simp add: update_def Let_def)
qed

section \<open>Reachable states\<close>

lemma shock_balls_mass:
  assumes "shock_balls org bs = Inr bs'"
  shows "map mass bs' = map mass bs"
  using assms
proof (induction bs arbitrary: bs')
  case Nil
  then show ?case by simp
next
  case (Cons ball rest)
  then show ?case
    by (auto simp add: bind_res_returns_iff clamp_speed_Inr apply_impulse_def)
qed

lemma shock_balls_returns: "\<exists>bs'. shock_balls org bs = Inr bs'"
proof (induction bs)
  case Nil
  then show ?case by simp
next
  case (Cons ball rest)
  then obtain rest' where "shock_balls org rest = Inr rest'"
    by blast
  then show ?case
    by (simp add: bind_res_projr not_isl_compute_shockwave_impulse clamp_speed_Inr)
qed

lemma apply_shockwave_returns: "\<exists>sim'. apply_shockwave sim org = Inr sim'"
proof -
  obtain bs where "shock_balls org (balls sim) = Inr bs"
    using shock_balls_returns [of org "balls sim"] by blast
  then show ?thesis
    by (simp add: apply_shockwave_def)
qed

lemma create_random_mass:
  assumes "MIN_RADIUS \<le> draw_radius rnd"
  shows "0 < mass (create_random oid pos col vel rnd)"
proof -
  have "0 < draw_radius rnd"
    using assms by (simp add: MIN_RADIUS_def)
  then have "0 < pi * draw_radius rnd * draw_radius rnd"
    by simp
  then show ?thesis
    by (simp add: create_random_def Let_def Ball_init_def MASS_DENSITY_def)
qed

lemma timer_step_nat:
  fixes timer :: real
  assumes "timer \<in> \<nat>"
  shows "(if timer > 0 then timer - 1 else timer) \<in> \<nat>"
proof -
  from assms obtain k :: nat where k: "timer = real k"
    by (auto elim: Nats_cases)
  show ?thesis
  proof (cases k)
    case 0
    with k show ?thesis by simp
  next
    case (Suc m)
    with k have "(if timer > 0 then timer - 1 else timer) = real m"
      by simp
    then show ?thesis by simp
  qed
qed

lemma positive_masses_same:
  assumes "map mass (balls sim') = map mass (balls sim)"
  shows "positive_masses sim' = positive_masses sim"
  by (simp only: positive_masses_def assms)

lemma reachable_invariant:
  assumes "reachable sim"
  shows "wall_glow_timer sim \<in> \<nat> \<and> positive_masses sim"
  using assms
proof (induction rule: reachable.induct)
  case reach_init
  show ?case
    by (simp add: Simulation_init_def positive_masses_def)
next
  case (reach_spawn sim rnd oid pos col vel res sim')
  from reach_spawn.hyps(5) have "sim' = sim \<or>
      sim' = save_initial_state
               (sim\<lparr>balls := balls sim @ [create_random oid pos col vel rnd]\<rparr>)
               (create_random oid pos col vel rnd)"
    by (auto simp add: spawn_ball_def Let_def split: if_splits)
  with reach_spawn.IH create_random_mass [OF reach_spawn.hyps(2), of oid pos col vel] show ?case
    by (auto simp add: save_initial_state_def positive_masses_def)
next
  case (reach_update sim sim')
  show ?case
  proof (cases "paused sim")
    case True
    with reach_update show ?thesis
      by (simp add: update_def)
  next
    case False
    note res = update_result [OF False reach_update.hyps(2)]
    have "WALL_GLOW_DURATION \<in> \<nat>"
      by (simp add: WALL_GLOW_DURATION_def)
    with reach_update.IH
    have "(if \<exists>b\<in>set (balls sim). hits_left (gravity_on sim) b
           then WALL_GLOW_DURATION else wall_glow_timer sim) \<in> \<nat>"
      by simp
    from timer_step_nat [OF this] res have "wall_glow_timer sim' \<in> \<nat>"
      by (simp add: Let_def)
    moreover from res have "map mass (balls sim') = map mass (balls sim)"
      by simp
    from positive_masses_same [OF this] reach_update.IH have "positive_masses sim'"
      by simp
    ultimately show ?thesis by simp
  qed
next
  case (reach_remove sim oid)
  have "set (balls (remove_ball sim oid)) \<subseteq> set (balls sim)"
    using set_remove1_subset [of _ "balls sim"]
    by (auto simp add: remove_ball_def split: option.splits)
  with reach_remove.IH show ?case
    by (auto simp add: positive_masses_def remove_ball_def split: option.splits)
next
  case (reach_reset sim)
  show ?case
    by (simp add: reset_def positive_masses_def)
next
  case (reach_shockwave sim org sim')
  from reach_shockwave.hyps(2) obtain bs where sb: "shock_balls org (balls sim) = Inr bs"
    and out: "sim' = sim\<lparr>balls := bs,
                shockwave_effects := shockwave_effects sim @ [\<lparr>origin = org, age = 0\<rparr>]\<rparr>"
    by (auto simp add: apply_shockwave_def bind_res_returns_iff)
  from shock_balls_mass [OF sb] out have "map mass (balls sim') = map mass (balls sim)"
    by simp
  from positive_masses_same [OF this] reach_shockwave.IH out show ?case
    by simp
next
  case (reach_toggle_gravity sim)
  then show ?case
    by (simp add: toggle_gravity_def positive_masses_def)
next
  case (reach_toggle_pause sim)
  then show ?case
    by (simp add: toggle_pause_def positive_masses_def)
qed

text \<open>
  C9. In every reachable state \<open>wall_glow_timer\<close> is at least 0 (and \<open>update\<close> returns).
  An unpaused \<open>update\<close> in which no ball hits the left wall decreases a positive timer by
  exactly 1 and leaves a timer of 0 at 0; an unpaused \<open>update\<close> in which some ball hits the
  left wall leaves the timer at \<open>WALL_GLOW_DURATION - 1\<close>, which is not negative.
\<close>

theorem wall_glow_timer_invariant:
  "(reachable sim \<longrightarrow> 0 \<le> wall_glow_timer sim \<and> (\<exists>next_sim. update sim = Inr next_sim))
   \<and> (\<not> paused sim \<and> update sim = Inr sim'
        \<and> \<not> (\<exists>b\<in>set (balls sim). hits_left (gravity_on sim) b)
      \<longrightarrow> (0 < wall_glow_timer sim \<longrightarrow> wall_glow_timer sim' = wall_glow_timer sim - 1)
          \<and> (wall_glow_timer sim = 0 \<longrightarrow> wall_glow_timer sim' = 0))
   \<and> (\<not> paused sim \<and> update sim = Inr sim'
        \<and> (\<exists>b\<in>set (balls sim). hits_left (gravity_on sim) b)
      \<longrightarrow> wall_glow_timer sim' = WALL_GLOW_DURATION - 1 \<and> 0 \<le> wall_glow_timer sim')"
proof -
  have inv: "0 \<le> wall_glow_timer sim \<and> (\<exists>next_sim. update sim = Inr next_sim)"
    if "reachable sim"
  proof -
    from reachable_invariant [OF that] obtain k :: nat where "wall_glow_timer sim = real k"
      and pm: "positive_masses sim"
      by (auto elim: Nats_cases)
    then have "0 \<le> wall_glow_timer sim" by simp
    with update_returns [OF pm] show ?thesis by simp
  qed
  have decay: "(0 < wall_glow_timer sim \<longrightarrow> wall_glow_timer sim' = wall_glow_timer sim - 1)
          \<and> (wall_glow_timer sim = 0 \<longrightarrow> wall_glow_timer sim' = 0)"
    if "\<not> paused sim \<and> update sim = Inr sim'
        \<and> \<not> (\<exists>b\<in>set (balls sim). hits_left (gravity_on sim) b)"
    using that update_result [of sim sim'] by (simp add: Let_def)
  have glow: "wall_glow_timer sim' = WALL_GLOW_DURATION - 1 \<and> 0 \<le> wall_glow_timer sim'"
    if "\<not> paused sim \<and> update sim = Inr sim'
        \<and> (\<exists>b\<in>set (balls sim). hits_left (gravity_on sim) b)"
    using that update_result [of sim sim'] by (simp add: Let_def WALL_GLOW_DURATION_def)
  from inv decay glow show ?thesis by blast
qed

section \<open>Concrete frames\<close>

lemma update_no_balls:
  "update \<lparr>balls = [], gravity_on = g, paused = False, wall_glow_timer = t,
           shockwave_effects = [], initial_balls = ib\<rparr>
     = Inr \<lparr>balls = [], gravity_on = g, paused = False,
            wall_glow_timer = (if t > 0 then t - 1 else t),
            shockwave_effects = [], initial_balls = ib\<rparr>"
  by (simp add: update_def pairwise_collisions_def Let_def)

lemma ball_frame_example:
  "ball_frame True (Ball_init 0 (Vector2D 5 100) (Vector2D (- 10) (- 0.15)) 10 COLOR_BALL_LEFT)
     = Inr ((Ball_init 0 (Vector2D 5 100) (Vector2D (- 10) (- 0.15)) 10 COLOR_BALL_LEFT)
              \<lparr>position := Vector2D 10 100, velocity := Vector2D 5 0\<rparr>, True)"
proof -
  have boost: "compute_wall_boost (Vector2D v 0) = Inr (Vector2D 5 0)" if "5 < v" for v
  proof -
    from that have "5 * 5 < v * v"
      by (intro mult_strict_mono) simp_all
    with that show ?thesis
      by (simp add: compute_wall_boost_def clamped_def normalized_Inr magnitude_axis
          magnitude_sq_def MAX_SPEED_CAP_def vec_mul_def)
  qed
  have clamp: "clamped (Vector2D 5 0) MAX_SPEED_CAP = Inr (Vector2D 5 0)"
    by (simp add: clamped_def magnitude_sq_def MAX_SPEED_CAP_def)
  have bounce: "handle_wall_bounce_gravity
      \<lparr>ident = i, position = Vector2D px 100, velocity = Vector2D vx 0,
       radius = 10, mass = m, color = c\<rparr>
      WINDOW_WIDTH PLAY_AREA_HEIGHT
      = (\<lparr>ident = i, position = Vector2D 10 100, velocity = Vector2D (- vx) 0,
          radius = 10, mass = m, color = c\<rparr>, True, False)"
    if "px \<le> 10" and "vx < 0" for i px vx m c
    using that
    by (simp add: handle_wall_bounce_gravity_def Let_def WINDOW_WIDTH_def PLAY_AREA_HEIGHT_def
        WINDOW_HEIGHT_def STATUS_BAR_HEIGHT_def)
  show ?thesis
    by (simp add: ball_frame_def Ball_init_def apply_gravity_def apply_air_resistance_def
        update_position_def vec_add_def vec_mul_def GRAVITY_ACCEL_def AIR_RESISTANCE_def
        bounce boost clamp clamp_speed_def)
qed

section \<open>Timer, pause and spawn examples\<close>

theorem wall_glow_timer_invariant_witness:
  "reachable Simulation_init
   \<and> 0 \<le> wall_glow_timer Simulation_init
   \<and> (\<exists>sim'. update \<lparr>balls = [], gravity_on = False, paused = False, wall_glow_timer = 10,
                        shockwave_effects = [], initial_balls = []\<rparr> = Inr sim'
          \<and> wall_glow_timer sim' = 10 - 1)
   \<and> hits_left True (Ball_init 0 (Vector2D 5 100) (Vector2D (- 10) (- 0.15)) 10 COLOR_BALL_LEFT)
   \<and> (\<exists>sim'. update \<lparr>balls = [Ball_init 0 (Vector2D 5 100) (Vector2D (- 10) (- 0.15)) 10
                                   COLOR_BALL_LEFT],
                        gravity_on = True, paused = False, wall_glow_timer = 0,
                        shockwave_effects = [], initial_balls = []\<rparr> = Inr sim'
          \<and> wall_glow_timer sim' = WALL_GLOW_DURATION - 1)"
proof -
  define ball where
    "ball = Ball_init 0 (Vector2D 5 100) (Vector2D (- 10) (- 0.15)) 10 COLOR_BALL_LEFT"
  define quiet where
    "quiet = \<lparr>balls = [], gravity_on = False, paused = False, wall_glow_timer = 10,
              shockwave_effects = [], initial_balls = []\<rparr>"
  define quiet' where
    "quiet' = \<lparr>balls = [], gravity_on = False, paused = False, wall_glow_timer = 9,
               shockwave_effects = [], initial_balls = []\<rparr>"
  define hit where
    "hit = \<lparr>balls = [ball], gravity_on = True, paused = False, wall_glow_timer = 0,
            shockwave_effects = [], initial_balls = []\<rparr>"
  have init: "reachable Simulation_init"
    by (rule reach_init)
  have t0: "0 \<le> wall_glow_timer Simulation_init"
    using wall_glow_timer_invariant [of Simulation_init, THEN conjunct1] init by blast
  have upd: "update quiet = Inr quiet'"
    by (simp add: quiet_def quiet'_def update_no_balls)
  have "\<not> paused quiet \<and> update quiet = Inr quiet'
        \<and> \<not> (\<exists>b\<in>set (balls quiet). hits_left (gravity_on quiet) b)"
    using upd by (simp add: quiet_def)
  with wall_glow_timer_invariant [of quiet quiet', THEN conjunct2, THEN conjunct1]
  have "0 < wall_glow_timer quiet \<longrightarrow> wall_glow_timer quiet' = wall_glow_timer quiet - 1"
    by blast
  then have "wall_glow_timer quiet' = 10 - 1"
    by (simp add: quiet_def)
  with upd have decay: "\<exists>sim'. update quiet = Inr sim' \<and> wall_glow_timer sim' = 10 - 1"
    by blast
  have hl: "hits_left True ball"
    unfolding hits_left_def ball_def ball_frame_example by simp
  have "0 < mass ball"
    by (simp add: ball_def Ball_init_def MASS_DENSITY_def)
  then have "positive_masses hit"
    by (simp add: positive_masses_def hit_def)
  from update_returns [OF this] obtain after where after: "update hit = Inr after"
    by blast
  have "\<not> paused hit \<and> update hit = Inr after
        \<and> (\<exists>b\<in>set (balls hit). hits_left (gravity_on hit) b)"
    using after hl by (simp add: hit_def)
  with wall_glow_timer_invariant [of hit after, THEN conjunct2, THEN conjunct2]
  have "wall_glow_timer after = WALL_GLOW_DURATION - 1"
    by blast
  with after have glow: "\<exists>sim'. update hit = Inr sim' \<and> wall_glow_timer sim' = WALL_GLOW_DURATION - 1"
    by blast
  from init t0 decay hl glow show ?thesis
    unfolding ball_def quiet_def hit_def by (intro conjI)
qed

theorem update_paused_noop_witness:
  "paused \<lparr>balls = [Ball_init 0 (Vector2D 400 200) (Vector2D 3 (- 1)) 20 COLOR_BALL_LEFT],
           gravity_on = True, paused = True, wall_glow_timer = 10,
           shockwave_effects = [\<lparr>origin = Vector2D 1 2, age = 5\<rparr>], initial_balls = []\<rparr>
   \<and> update_times 3
        \<lparr>balls = [Ball_init 0 (Vector2D 400 200) (Vector2D 3 (- 1)) 20 COLOR_BALL_LEFT],
         gravity_on = True, paused = True, wall_glow_timer = 10,
         shockwave_effects = [\<lparr>origin = Vector2D 1 2, age = 5\<rparr>], initial_balls = []\<rparr>
       = Inr \<lparr>balls = [Ball_init 0 (Vector2D 400 200) (Vector2D 3 (- 1)) 20 COLOR_BALL_LEFT],
              gravity_on = True, paused = True, wall_glow_timer = 10,
              shockwave_effects = [\<lparr>origin = Vector2D 1 2, age = 5\<rparr>], initial_balls = []\<rparr>"
proof -
  define frozen where
    "frozen = \<lparr>balls = [Ball_init 0 (Vector2D 400 200) (Vector2D 3 (- 1)) 20 COLOR_BALL_LEFT],
           gravity_on = True, paused = True, wall_glow_timer = 10,
           shockwave_effects = [\<lparr>origin = Vector2D 1 2, age = 5\<rparr>], initial_balls = []\<rparr>"
  have p: "paused frozen"
    by (simp add: frozen_def)
  from update_paused_noop [OF p, of 3] have "update_times 3 frozen = Inr frozen"
    by (rule conjunct2)
  with p show ?thesis
    unfolding frozen_def by (intro conjI)
qed

theorem spawn_ball_double_check_witness:
  "spawn_ball
     (Simulation_init\<lparr>balls := [Ball_init 0 (Vector2D 100 100) (Vector2D 0 0) 20 COLOR_BALL_LEFT]\<rparr>)
     7 (Vector2D 105 100) COLOR_BALL_LEFT (Some (Vector2D 0 0))
     \<lparr>draw_radius = 30, draw_angle = 0, draw_speed = 1\<rparr>
     = (None, Simulation_init\<lparr>balls := [Ball_init 0 (Vector2D 100 100) (Vector2D 0 0) 20 COLOR_BALL_LEFT]\<rparr>)
   \<and> spawn_ball
     (Simulation_init\<lparr>balls := [Ball_init 0 (Vector2D 100 100) (Vector2D 0 0) 20 COLOR_BALL_LEFT]\<rparr>)
     7 (Vector2D 145 100) COLOR_BALL_LEFT (Some (Vector2D 0 0))
     \<lparr>draw_radius = 30, draw_angle = 0, draw_speed = 1\<rparr>
     = (None, Simulation_init\<lparr>balls := [Ball_init 0 (Vector2D 100 100) (Vector2D 0 0) 20 COLOR_BALL_LEFT]\<rparr>)
   \<and> (\<exists>ball sim'. spawn_ball
     (Simulation_init\<lparr>balls := [Ball_init 0 (Vector2D 100 100) (Vector2D 0 0) 20 COLOR_BALL_LEFT]\<rparr>)
     7 (Vector2D 300 100) COLOR_BALL_LEFT (Some (Vector2D 0 0))
     \<lparr>draw_radius = 30, draw_angle = 0, draw_speed = 1\<rparr> = (Some ball, sim')
        \<and> length (balls sim') = 1 + 1)"
proof -
  define old where "old = Ball_init 0 (Vector2D 100 100) (Vector2D 0 0) 20 COLOR_BALL_LEFT"
  define sim where "sim = Simulation_init\<lparr>balls := [old]\<rparr>"
  define rnd where "rnd = \<lparr>draw_radius = 30, draw_angle = 0, draw_speed = 1\<rparr>"
  have bs: "balls sim = [old]"
    by (simp add: sim_def)
  have r_old: "radius old = 20" and p_old: "position old = Vector2D 100 100"
    by (simp_all add: old_def Ball_init_def)
  have r_new: "radius (create_random 7 pos COLOR_BALL_LEFT (Some (Vector2D 0 0)) rnd) = 30" for pos
    by (simp add: create_random_def Ball_init_def rnd_def)
  have pre: "\<exists>b\<in>set (balls sim).
      distance_to (Vector2D 105 100) (position b) < (MIN_RADIUS + MAX_RADIUS) / 2 + radius b"
    by (simp add: bs r_old p_old distance_to_same_row MIN_RADIUS_def MAX_RADIUS_def)
  have re: "\<exists>b\<in>set (balls sim).
      distance_to (Vector2D 145 100) (position b)
        < radius (create_random 7 (Vector2D 145 100) COLOR_BALL_LEFT (Some (Vector2D 0 0)) rnd)
          + radius b"
    by (simp add: bs r_old p_old r_new distance_to_same_row)
  have far: "\<not> (\<exists>b\<in>set (balls sim).
      distance_to (Vector2D 300 100) (position b) < (MIN_RADIUS + MAX_RADIUS) / 2 + radius b)
    \<and> \<not> (\<exists>b\<in>set (balls sim).
      distance_to (Vector2D 300 100) (position b)
        < radius (create_random 7 (Vector2D 300 100) COLOR_BALL_LEFT (Some (Vector2D 0 0)) rnd)
          + radius b)"
    by (simp add: bs r_old p_old r_new distance_to_same_row MIN_RADIUS_def MAX_RADIUS_def)
  have w1: "spawn_ball sim 7 (Vector2D 105 100) COLOR_BALL_LEFT (Some (Vector2D 0 0)) rnd = (None, sim)"
    using spawn_ball_double_check
            [of sim "Vector2D 105 100" 7 COLOR_BALL_LEFT "Some (Vector2D 0 0)" rnd, THEN conjunct1]
      pre by (rule mp)
  have w2: "spawn_ball sim 7 (Vector2D 145 100) COLOR_BALL_LEFT (Some (Vector2D 0 0)) rnd = (None, sim)"
    using spawn_ball_double_check
            [of sim "Vector2D 145 100" 7 COLOR_BALL_LEFT "Some (Vector2D 0 0)" rnd,
             THEN conjunct2, THEN conjunct1]
      re by (rule mp)
  have "\<exists>ball sim'.
      spawn_ball sim 7 (Vector2D 300 100) COLOR_BALL_LEFT (Some (Vector2D 0 0)) rnd = (Some ball, sim')
      \<and> ball = create_random 7 (Vector2D 300 100) COLOR_BALL_LEFT (Some (Vector2D 0 0)) rnd
      \<and> balls sim' = balls sim @ [ball]
      \<and> length (balls sim') = length (balls sim) + 1"
    using spawn_ball_double_check
            [of sim "Vector2D 300 100" 7 COLOR_BALL_LEFT "Some (Vector2D 0 0)" rnd,
             THEN conjunct2, THEN conjunct2]
      far by (rule mp)
  then have w3: "\<exists>ball sim'.
      spawn_ball sim 7 (Vector2D 300 100) COLOR_BALL_LEFT (Some (Vector2D 0 0)) rnd = (Some ball, sim')
      \<and> length (balls sim') = 1 + 1"
    by (auto simp add: bs)
  from w1 w2 w3 show ?thesis
    unfolding sim_def old_def rnd_def by (intro conjI)
qed

section \<open>Facts about rounding\<close>

lemma pow2_powr: "pow2 e = 2 powr (of_int e)"
proof (cases "0 \<le> e")
  case True
  then have "2 powr (of_int e) = (2::real) powr (real (nat e))"
    by simp
  also have "\<dots> = 2 ^ nat e"
    by (simp add: powr_realpow)
  finally show ?thesis
    using True by (simp add: pow2_def)
next
  case False
  then have "2 powr (of_int e) = (2::real) powr (- real (nat (- e)))"
    by simp
  also have "\<dots> = 1 / 2 ^ nat (- e)"
    by (simp add: powr_minus powr_realpow divide_inverse)
  finally show ?thesis
    using False by (simp add: pow2_def)
qed

lemma binade_eqI:
  assumes lo: "pow2 e \<le> \<bar>x\<bar>" and hi: "\<bar>x\<bar> < pow2 (e + 1)"
  shows "binade x = e"
proof -
  have "(0::real) < 2 powr (of_int e)"
    by simp
  with lo have pos: "0 < \<bar>x\<bar>"
    unfolding pow2_powr by linarith
  have "of_int e \<le> log 2 \<bar>x\<bar>"
    using lo pos by (simp add: pow2_powr le_log_iff)
  moreover have "log 2 \<bar>x\<bar> < of_int (e + 1)"
    using hi pos by (simp add: pow2_powr log_less_iff)
  ultimately show ?thesis
    unfolding binade_def by (simp add: floor_eq_iff)
qed

lemma binary64_eqI:
  assumes "x \<noteq> 0" and "pow2 e \<le> \<bar>x\<bar>" and "\<bar>x\<bar> < pow2 (e + 1)"
    and "round_even (x / pow2 (e - 52)) = m" and "y = of_int m * pow2 (e - 52)"
  shows "binary64 x = y"
  using assms binade_eqI [of e x] by (simp add: binary64_def Let_def)

lemma binary64_zero: "binary64 0 = 0"
  by (simp add: binary64_def)

lemma binary64_at:
  assumes "pow2 e \<le> \<bar>x\<bar>" and "\<bar>x\<bar> < pow2 (e + 1)"
  shows "binary64 x = of_int (round_even (x / pow2 (e - 52))) * pow2 (e - 52)"
proof -
  have "(0::real) < pow2 e"
    by (simp add: pow2_powr)
  with assms(1) have "x \<noteq> 0" by auto
  then show ?thesis
    using binade_eqI [OF assms] by (simp add: binary64_def Let_def)
qed

lemmas binary64_eval =
  binary64_at [of "- 5"] binary64_at [of "- 4"] binary64_at [of "- 3"] binary64_at [of "- 2"]
  binary64_at [of "- 1"] binary64_at [of "0"] binary64_at [of "1"] binary64_at [of "2"]
  binary64_at [of "3"] binary64_at [of "4"] binary64_at [of "5"] binary64_at [of "6"]
  binary64_at [of "7"] binary64_at [of "8"] binary64_at [of "9"] binary64_at [of "10"]
  binary64_at [of "11"] binary64_at [of "12"]

lemma magnitude_r_axis: "magnitude_r rnd (Vector2D a 0) = rnd \<bar>a\<bar>"
  by (simp add: magnitude_r_def)

lemma exact_arith:
  "vec_add_r exact = vec_add" "vec_sub_r exact = vec_sub" "vec_mul_r exact = vec_mul"
  "magnitude_r exact = magnitude" "magnitude_sq_r exact = magnitude_sq" "dot_r exact = dot"
  "fdiv_r exact = fdiv"
  by (simp_all add: fun_eq_iff exact_def vec_add_r_def vec_add_def vec_sub_r_def vec_sub_def
      vec_mul_r_def vec_mul_def magnitude_r_def magnitude_def magnitude_sq_r_def magnitude_sq_def
      dot_r_def dot_def fdiv_r_def fdiv_def)

lemma exact_arith2:
  "normalized_r exact = normalized" "distance_to_r exact = distance_to"
  "distance_sq_to_r exact = distance_sq_to"
  by (simp_all add: fun_eq_iff normalized_r_def normalized_def distance_to_r_def distance_to_def
      distance_sq_to_r_def distance_sq_to_def exact_arith Let_def)

lemma exact_detect_collision: "detect_collision_r exact = detect_collision"
  by (simp add: fun_eq_iff detect_collision_r_def detect_collision_def exact_arith2 Let_def
      exact_def)

lemma exact_collision_normal: "collision_normal_r exact = collision_normal"
  by (simp add: fun_eq_iff collision_normal_r_def collision_normal_def exact_arith exact_arith2
      Let_def)

lemma exact_resolve_collision:
  "resolve_collision_r exact pos_a vel_a mass_a radius_a pos_b vel_b mass_b radius_b
     = resolve_collision pos_a vel_a mass_a radius_a pos_b vel_b mass_b radius_b"
proof (cases "collision_normal pos_a pos_b")
  case (Inl e)
  then show ?thesis
    by (simp add: resolve_collision_r_def resolve_collision_def exact_collision_normal)
next
  case (Inr r)
  then show ?thesis
    by (cases r)
      (simp add: resolve_collision_r_def resolve_collision_def exact_collision_normal
        exact_arith Let_def exact_def)
qed

lemma exact_compute_shockwave_impulse: "compute_shockwave_impulse_r exact = compute_shockwave_impulse"
  by (simp add: fun_eq_iff compute_shockwave_impulse_r_def compute_shockwave_impulse_def
      exact_arith exact_arith2 Let_def)


lemma resolve_collision_r_unfold:
  assumes "collision_normal_r rnd pos_a pos_b = Inr (n, dst)"
  shows "resolve_collision_r rnd pos_a vel_a mass_a radius_a pos_b vel_b mass_b radius_b =
     (if dot_r rnd (vec_sub_r rnd vel_a vel_b) n > 0 then
        (if rnd (rnd (radius_a + radius_b) - dst) > 0 then
           Inr (vel_a, vel_b,
                vec_add_r rnd pos_a
                  (vec_mul_r rnd n (rnd (rnd (rnd (rnd (radius_a + radius_b) - dst) / 2) + 0.5))),
                vec_sub_r rnd pos_b
                  (vec_mul_r rnd n (rnd (rnd (rnd (rnd (radius_a + radius_b) - dst) / 2) + 0.5))))
         else Inr (vel_a, vel_b, pos_a, pos_b))
      else
        bind_res (fdiv_r rnd (rnd (2 * dot_r rnd (vec_sub_r rnd vel_a vel_b) n))
                    (rnd (mass_a + mass_b))) (\<lambda>impulse.
          if rnd (rnd (radius_a + radius_b) - dst) > 0 then
            Inr (vec_sub_r rnd vel_a (vec_mul_r rnd n (rnd (impulse * mass_b))),
                 vec_add_r rnd vel_b (vec_mul_r rnd n (rnd (impulse * mass_a))),
                 vec_add_r rnd pos_a
                   (vec_mul_r rnd n (rnd (rnd (rnd (rnd (radius_a + radius_b) - dst) / 2) + 0.5))),
                 vec_sub_r rnd pos_b
                   (vec_mul_r rnd n (rnd (rnd (rnd (rnd (radius_a + radius_b) - dst) / 2) + 0.5))))
          else
            Inr (vec_sub_r rnd vel_a (vec_mul_r rnd n (rnd (impulse * mass_b))),
                 vec_add_r rnd vel_b (vec_mul_r rnd n (rnd (impulse * mass_a))), pos_a, pos_b)))"
  by (simp add: resolve_collision_r_def assms Let_def)


section \<open>Traces in binary64 arithmetic: collision resolution\<close>

lemma normalized_r_Inr:
  "normalized_r rnd v =
     Inr (if magnitude_r rnd v = 0 then Vector2D 0 0
          else Vector2D (rnd (vec_x v / magnitude_r rnd v)) (rnd (vec_y v / magnitude_r rnd v)))"
  by (simp add: normalized_r_def Let_def fdiv_r_def)

lemma collision_normal_r_returns: "\<exists>n dst. collision_normal_r rnd pos_a pos_b = Inr (n, dst)"
  by (simp add: collision_normal_r_def Let_def normalized_r_Inr split: if_splits)

lemma c10_normal:
  "collision_normal_r binary64 (Vector2D (3602879701896397 / 36028797018963968) 0)
       (Vector2D (3152519739159347 / 4503599627370496) 0)
     = Inr (Vector2D (- 1) 0, 5404319552844595 / 9007199254740992)"
  by (simp add: collision_normal_r_def normalized_r_def magnitude_r_axis vec_sub_r_def fdiv_r_def
      binary64_zero binary64_eval pow2_def round_even_def Let_def)

lemma c10_trace:
  "resolve_collision_r binary64 (Vector2D (3602879701896397 / 36028797018963968) 0) (Vector2D 0 0) 1 1
       (Vector2D (3152519739159347 / 4503599627370496) 0) (Vector2D 0 0) 1 1
     = Inr (Vector2D 0 0, Vector2D 0 0,
            Vector2D (- (4953959590107545 / 4503599627370496)) 0,
            Vector2D (4278419646001971 / 2251799813685248) 0)"
proof -
  have van: "dot_r binary64 (vec_sub_r binary64 (Vector2D 0 0) (Vector2D 0 0)) (Vector2D (- 1) 0) = 0"
    by (simp add: vec_sub_r_def dot_r_def binary64_zero)
  have imp: "fdiv_r binary64 (binary64 (2 * 0)) (binary64 (1 + 1)) = Inr 0"
    by (simp add: fdiv_r_def binary64_zero binary64_eval pow2_def round_even_def Let_def)
  have ov: "binary64 (binary64 (1 + 1) - 5404319552844595 / 9007199254740992)
              = 3152519739159347 / 2251799813685248"
    by (simp add: binary64_zero binary64_eval pow2_def round_even_def Let_def)
  have k: "binary64 (binary64 (3152519739159347 / 2251799813685248 / 2) + 0.5)
             = 5404319552844595 / 4503599627370496"
    by (simp add: binary64_zero binary64_eval pow2_def round_even_def Let_def)
  have va: "vec_sub_r binary64 (Vector2D 0 0) (vec_mul_r binary64 (Vector2D (- 1) 0) (binary64 (0 * 1)))
              = Vector2D 0 0"
    by (simp add: vec_sub_r_def vec_mul_r_def binary64_zero)
  have vb: "vec_add_r binary64 (Vector2D 0 0) (vec_mul_r binary64 (Vector2D (- 1) 0) (binary64 (0 * 1)))
              = Vector2D 0 0"
    by (simp add: vec_add_r_def vec_mul_r_def binary64_zero)
  have pa: "vec_add_r binary64 (Vector2D (3602879701896397 / 36028797018963968) 0)
              (vec_mul_r binary64 (Vector2D (- 1) 0) (5404319552844595 / 4503599627370496))
            = Vector2D (- (4953959590107545 / 4503599627370496)) 0"
    by (simp add: vec_add_r_def vec_mul_r_def binary64_zero binary64_eval pow2_def round_even_def
        Let_def)
  have pb: "vec_sub_r binary64 (Vector2D (3152519739159347 / 4503599627370496) 0)
              (vec_mul_r binary64 (Vector2D (- 1) 0) (5404319552844595 / 4503599627370496))
            = Vector2D (4278419646001971 / 2251799813685248) 0"
    by (simp add: vec_sub_r_def vec_mul_r_def binary64_zero binary64_eval pow2_def round_even_def
        Let_def)
  show ?thesis
    unfolding resolve_collision_r_unfold [OF c10_normal] van imp bind_res_Inr ov k va vb pa pb
    by simp
qed

section \<open>Traces in binary64 arithmetic: detection and shockwave\<close>

lemma round_even_near:
  assumes "of_int m \<le> x" and "x < of_int m + 1 / 2"
  shows "round_even x = m"
proof -
  have "\<lfloor>x\<rfloor> = m"
    using assms by (simp add: floor_eq_iff)
  with assms show ?thesis
    by (simp add: round_even_def Let_def)
qed

lemma c3_distance:
  "sqrt (354505041 / 16777216 * (354505041 / 16777216)
         + 118168347 / 4194304 * (118168347 / 4194304)) = (590841735 / 16777216 :: real)"
  by (rule real_sqrt_unique) (simp_all add: power2_eq_square)

lemma c3_trace:
  "detect_collision_r binary64 (Vector2D (354505041 / 16777216) (118168347 / 4194304))
      (118168347 / 8388608) (Vector2D 0 0) (354505041 / 16777216)"
  by (simp add: detect_collision_r_def distance_sq_to_r_def magnitude_sq_r_def vec_sub_r_def
      binary64_zero binary64_eval pow2_def round_even_def Let_def)

lemma c3_touching:
  "distance_to (Vector2D (354505041 / 16777216) (118168347 / 4194304)) (Vector2D 0 0)
     = 118168347 / 8388608 + 354505041 / 16777216"
proof -
  have "distance_to (Vector2D (354505041 / 16777216) (118168347 / 4194304)) (Vector2D 0 0)
          = sqrt (354505041 / 16777216 * (354505041 / 16777216)
                  + 118168347 / 4194304 * (118168347 / 4194304))"
    unfolding distance_to_def vec_sub_def magnitude_def by simp
  then show ?thesis
    unfolding c3_distance by simp
qed

lemma c3_touching_binary64:
  "distance_to_r binary64 (Vector2D (354505041 / 16777216) (118168347 / 4194304)) (Vector2D 0 0)
     = binary64 (118168347 / 8388608 + 354505041 / 16777216)"
proof -
  have v: "vec_sub_r binary64 (Vector2D (354505041 / 16777216) (118168347 / 4194304)) (Vector2D 0 0)
             = Vector2D (354505041 / 16777216) (118168347 / 4194304)"
    by (simp add: vec_sub_r_def binary64_eval pow2_def round_even_def Let_def)
  have "magnitude_r binary64 (Vector2D (354505041 / 16777216) (118168347 / 4194304))
          = binary64 (590841735 / 16777216)"
    unfolding magnitude_r_def Vector2D.sel c3_distance ..
  then show ?thesis
    unfolding distance_to_r_def v by simp
qed

lemma c4_equal_impulses:
  "compute_shockwave_impulse_r binary64 (Vector2D 399 0) (Vector2D 0 0)
     = Inr (Vector2D (1128721711120425 / 562949953421312) 0)"
  "compute_shockwave_impulse_r binary64 (Vector2D (7019282231721985 / 17592186044416) 0) (Vector2D 0 0)
     = Inr (Vector2D (1128721711120425 / 562949953421312) 0)"
  by (simp_all add: compute_shockwave_impulse_r_def normalized_r_def magnitude_r_axis
      vec_sub_r_def vec_mul_r_def fdiv_r_def SHOCKWAVE_RADIUS_def SHOCKWAVE_STRENGTH_def
      binary64_zero binary64_eval pow2_def round_even_def Let_def)

lemma c4_hypot:
  "binary64 (sqrt (175921860444160001 / 1099511627776)) = 400"
proof -
  define r :: real where "r = sqrt (175921860444160001 / 1099511627776)"
  have lo: "400 \<le> r"
    unfolding r_def by (rule real_le_rsqrt) simp
  have hi: "r < 400 + 1 / 2 ^ 45"
    unfolding r_def by (rule real_less_lsqrt) (simp_all add: power2_eq_square)
  have m: "round_even (r / pow2 (8 - 52)) = 400 * 2 ^ 44"
  proof (rule round_even_near)
    show "of_int (400 * 2 ^ 44) \<le> r / pow2 (8 - 52)"
      using lo by (simp add: pow2_def)
    show "r / pow2 (8 - 52) < of_int (400 * 2 ^ 44) + 1 / 2"
      using hi by (simp add: pow2_def)
  qed
  have "binary64 r = 400"
  proof (rule binary64_eqI [where e = 8, OF _ _ _ m])
    show "r \<noteq> 0" using lo by simp
    show "pow2 8 \<le> \<bar>r\<bar>" using lo by (simp add: pow2_def)
    show "\<bar>r\<bar> < pow2 (8 + 1)" using lo hi by (simp add: pow2_def)
    show "400 = real_of_int (400 * 2 ^ 44) * pow2 (8 - 52)" by (simp add: pow2_def)
  qed
  then show ?thesis by (simp add: r_def)
qed

lemma c4_beyond_radius:
  "compute_shockwave_impulse_r binary64 (Vector2D 400 (1 / 1048576)) (Vector2D 0 0)
     = Inr (Vector2D 2 (5764607523034235 / 1208925819614629174706176))"
proof -
  have d: "vec_sub_r binary64 (Vector2D 400 (1 / 1048576)) (Vector2D 0 0) = Vector2D 400 (1 / 1048576)"
    by (simp add: vec_sub_r_def binary64_eval binary64_at [of "- 20"] pow2_def round_even_def Let_def)
  have mag: "magnitude_r binary64 (Vector2D 400 (1 / 1048576)) = 400"
    using c4_hypot by (simp add: magnitude_r_def)
  show ?thesis
    unfolding compute_shockwave_impulse_r_def d Let_def mag normalized_r_def
    by (simp add: fdiv_r_def vec_mul_r_def SHOCKWAVE_RADIUS_def SHOCKWAVE_STRENGTH_def
        binary64_eval binary64_at [of "- 29"] binary64_at [of "- 28"] pow2_def round_even_def Let_def)
qed

lemma c4_exact_distance:
  "SHOCKWAVE_RADIUS < distance_to (Vector2D 400 (1 / 1048576)) (Vector2D 0 0)"
proof -
  have "400 < sqrt (175921860444160001 / 1099511627776 :: real)"
    by (rule real_less_rsqrt) simp
  then show ?thesis
    by (simp add: distance_to_def vec_sub_def magnitude_def SHOCKWAVE_RADIUS_def)
qed

section \<open>Position corrections\<close>

lemma resolve_collision_r_returns:
  assumes "rnd (mass_a + mass_b) \<noteq> 0"
  shows "\<exists>r. resolve_collision_r rnd pos_a vel_a mass_a radius_a pos_b vel_b mass_b radius_b = Inr r"
proof -
  obtain n dst where cn: "collision_normal_r rnd pos_a pos_b = Inr (n, dst)"
    using collision_normal_r_returns [of rnd pos_a pos_b] by blast
  show ?thesis
    using assms by (simp add: resolve_collision_r_unfold [OF cn] fdiv_r_def)
qed

lemma resolve_collision_r_positions:
  assumes cn: "collision_normal_r rnd pos_a pos_b = Inr (n, dst)"
    and res: "resolve_collision_r rnd pos_a vel_a mass_a radius_a pos_b vel_b mass_b radius_b
                = Inr (new_vel_a, new_vel_b, new_pos_a, new_pos_b)"
  shows "(new_pos_a, new_pos_b) =
           (if rnd (rnd (radius_a + radius_b) - dst) > 0
            then (vec_add_r rnd pos_a
                    (vec_mul_r rnd n (rnd (rnd (rnd (rnd (radius_a + radius_b) - dst) / 2) + 0.5))),
                  vec_sub_r rnd pos_b
                    (vec_mul_r rnd n (rnd (rnd (rnd (rnd (radius_a + radius_b) - dst) / 2) + 0.5))))
            else (pos_a, pos_b))"
  using res
  by (auto simp add: resolve_collision_r_unfold [OF cn] fdiv_r_def split: if_splits)

text \<open>
  C10, as amended. With any rounding of the arithmetic, \<open>resolve_collision\<close> returns whenever
  the computed total mass is not zero, and in every result the positions are either both
  unchanged or \<open>pos_a + c\<close> and \<open>pos_b - c\<close> for one and the same correction \<open>c\<close>. In
  exact arithmetic the sum of the two returned positions therefore equals the sum of the
  two input positions.
\<close>

theorem resolve_collision_opposite_corrections:
  "(rnd (mass_a + mass_b) \<noteq> 0 \<longrightarrow>
      (\<exists>r. resolve_collision_r rnd pos_a vel_a mass_a radius_a pos_b vel_b mass_b radius_b = Inr r))
   \<and> (\<forall>new_vel_a new_vel_b new_pos_a new_pos_b.
        resolve_collision_r rnd pos_a vel_a mass_a radius_a pos_b vel_b mass_b radius_b
          = Inr (new_vel_a, new_vel_b, new_pos_a, new_pos_b)
        \<longrightarrow> (new_pos_a = pos_a \<and> new_pos_b = pos_b)
            \<or> (\<exists>c. new_pos_a = vec_add_r rnd pos_a c \<and> new_pos_b = vec_sub_r rnd pos_b c))
   \<and> (\<forall>new_vel_a new_vel_b new_pos_a new_pos_b.
        resolve_collision_r exact pos_a vel_a mass_a radius_a pos_b vel_b mass_b radius_b
          = Inr (new_vel_a, new_vel_b, new_pos_a, new_pos_b)
        \<longrightarrow> vec_add new_pos_a new_pos_b = vec_add pos_a pos_b)"
proof -
  obtain n dst where cn: "collision_normal_r rnd pos_a pos_b = Inr (n, dst)"
    using collision_normal_r_returns [of rnd pos_a pos_b] by blast
  have returns: "\<exists>r. resolve_collision_r rnd pos_a vel_a mass_a radius_a pos_b vel_b mass_b radius_b = Inr r"
    if "rnd (mass_a + mass_b) \<noteq> 0"
    using that by (rule resolve_collision_r_returns)
  have opposite: "(new_pos_a = pos_a \<and> new_pos_b = pos_b)
            \<or> (\<exists>c. new_pos_a = vec_add_r rnd pos_a c \<and> new_pos_b = vec_sub_r rnd pos_b c)"
    if "resolve_collision_r rnd pos_a vel_a mass_a radius_a pos_b vel_b mass_b radius_b
          = Inr (new_vel_a, new_vel_b, new_pos_a, new_pos_b)"
    for new_vel_a new_vel_b new_pos_a new_pos_b
    using resolve_collision_r_positions [OF cn that]
    by (cases "rnd (rnd (radius_a + radius_b) - dst) > 0") auto
  have midpoint: "vec_add new_pos_a new_pos_b = vec_add pos_a pos_b"
    if "resolve_collision_r exact pos_a vel_a mass_a radius_a pos_b vel_b mass_b radius_b
          = Inr (new_vel_a, new_vel_b, new_pos_a, new_pos_b)"
    for new_vel_a new_vel_b new_pos_a new_pos_b
    using that resolve_collision_exact_midpoint
            [of mass_a mass_b pos_a vel_a radius_a pos_b vel_b radius_b]
    by (simp add: exact_resolve_collision)
  from returns opposite midpoint show ?thesis by blast
qed

text \<open>
  C10 as stated fails in binary64 arithmetic. With centres \<open>(0.1, 0)\<close> and \<open>(0.7, 0)\<close>,
  both radii 1, both bodies at rest and both masses 1, the returned centres are
  \<open>(-1.0999999999999999, 0)\<close> and \<open>(1.9, 0)\<close>: their exact sum is not the sum of the two
  input centres, and the rounded sums differ as well (0.8 against 0.7999999999999999).
\<close>

theorem resolve_collision_midpoint_counterexample:
  "resolve_collision_r binary64 (Vector2D (3602879701896397 / 36028797018963968) 0) (Vector2D 0 0) 1 1
       (Vector2D (3152519739159347 / 4503599627370496) 0) (Vector2D 0 0) 1 1
     = Inr (Vector2D 0 0, Vector2D 0 0,
            Vector2D (- (4953959590107545 / 4503599627370496)) 0,
            Vector2D (4278419646001971 / 2251799813685248) 0)
   \<and> vec_add (Vector2D (- (4953959590107545 / 4503599627370496)) 0)
               (Vector2D (4278419646001971 / 2251799813685248) 0)
       \<noteq> vec_add (Vector2D (3602879701896397 / 36028797018963968) 0)
                  (Vector2D (3152519739159347 / 4503599627370496) 0)
   \<and> vec_add_r binary64 (Vector2D (- (4953959590107545 / 4503599627370496)) 0)
               (Vector2D (4278419646001971 / 2251799813685248) 0)
       \<noteq> vec_add_r binary64 (Vector2D (3602879701896397 / 36028797018963968) 0)
                  (Vector2D (3152519739159347 / 4503599627370496) 0)"
proof -
  have exact_sum: "vec_add (Vector2D (- (4953959590107545 / 4503599627370496)) 0)
               (Vector2D (4278419646001971 / 2251799813685248) 0)
       \<noteq> vec_add (Vector2D (3602879701896397 / 36028797018963968) 0)
                  (Vector2D (3152519739159347 / 4503599627370496) 0)"
    by (simp add: vec_add_def)
  have rounded_sum: "vec_add_r binary64 (Vector2D (- (4953959590107545 / 4503599627370496)) 0)
               (Vector2D (4278419646001971 / 2251799813685248) 0)
       \<noteq> vec_add_r binary64 (Vector2D (3602879701896397 / 36028797018963968) 0)
                  (Vector2D (3152519739159347 / 4503599627370496) 0)"
    by (simp add: vec_add_r_def binary64_zero binary64_eval pow2_def round_even_def Let_def)
  from c10_trace exact_sum rounded_sum show ?thesis
    by (intro conjI)
qed

theorem resolve_collision_opposite_corrections_witness:
  "binary64 (1 + 1) \<noteq> 0
   \<and> ((Vector2D (- (4953959590107545 / 4503599627370496)) 0
          = Vector2D (3602879701896397 / 36028797018963968) 0
        \<and> Vector2D (4278419646001971 / 2251799813685248) 0
          = Vector2D (3152519739159347 / 4503599627370496) 0)
       \<or> (\<exists>c. Vector2D (- (4953959590107545 / 4503599627370496)) 0
                  = vec_add_r binary64 (Vector2D (3602879701896397 / 36028797018963968) 0) c
              \<and> Vector2D (4278419646001971 / 2251799813685248) 0
                  = vec_sub_r binary64 (Vector2D (3152519739159347 / 4503599627370496) 0) c))
   \<and> resolve_collision_r exact (Vector2D 0 0) (Vector2D 5 0) 1 10 (Vector2D 15 0) (Vector2D (- 3) 0) 1 10
       = Inr (Vector2D (- 3) 0, Vector2D 5 0, Vector2D (- 3) 0, Vector2D 18 0)
   \<and> vec_add (Vector2D (- 3) 0) (Vector2D 18 0) = vec_add (Vector2D 0 0) (Vector2D 15 0)"
proof -
  have m: "binary64 (1 + 1) \<noteq> 0"
    by (simp add: binary64_eval pow2_def round_even_def Let_def)
  note rounded = resolve_collision_opposite_corrections
    [of binary64 1 1 "Vector2D (3602879701896397 / 36028797018963968) 0" "Vector2D 0 0" 1
        "Vector2D (3152519739159347 / 4503599627370496) 0" "Vector2D 0 0" 1]
  from rounded c10_trace
  have opp: "(Vector2D (- (4953959590107545 / 4503599627370496)) 0
          = Vector2D (3602879701896397 / 36028797018963968) 0
        \<and> Vector2D (4278419646001971 / 2251799813685248) 0
          = Vector2D (3152519739159347 / 4503599627370496) 0)
       \<or> (\<exists>c. Vector2D (- (4953959590107545 / 4503599627370496)) 0
                  = vec_add_r binary64 (Vector2D (3602879701896397 / 36028797018963968) 0) c
              \<and> Vector2D (4278419646001971 / 2251799813685248) 0
                  = vec_sub_r binary64 (Vector2D (3152519739159347 / 4503599627370496) 0) c)"
    by blast
  have ex: "resolve_collision_r exact (Vector2D 0 0) (Vector2D 5 0) 1 10 (Vector2D 15 0) (Vector2D (- 3) 0) 1 10
       = Inr (Vector2D (- 3) 0, Vector2D 5 0, Vector2D (- 3) 0, Vector2D 18 0)"
    by (simp only: exact_resolve_collision resolve_collision_example)
  from resolve_collision_opposite_corrections
    [of exact 1 1 "Vector2D 0 0" "Vector2D 5 0" 10 "Vector2D 15 0" "Vector2D (- 3) 0" 10] ex
  have mid: "vec_add (Vector2D (- 3) 0) (Vector2D 18 0) = vec_add (Vector2D 0 0) (Vector2D 15 0)"
    by blast
  from m opp ex mid show ?thesis
    by (intro conjI)
qed

section \<open>Conservation\<close>




section \<open>Detection at the boundary\<close>

text \<open>
  C3, as amended. With any rounding of the arithmetic, \<open>detect_collision\<close> is true exactly
  when the computed squared distance between the centres is strictly less than the computed
  square of the computed sum of the radii. In exact arithmetic this is the strict
  comparison of the squared distance with \<open>(radius_a + radius_b)\<^sup>2\<close>, and circles whose
  distance equals the sum of the radii are not reported as colliding.
\<close>

theorem detect_collision_rounded_comparison:
  "(detect_collision_r rnd pos_a radius_a pos_b radius_b
      \<longleftrightarrow> distance_sq_to_r rnd pos_a pos_b
            < rnd (rnd (radius_a + radius_b) * rnd (radius_a + radius_b)))
   \<and> (detect_collision_r exact pos_a radius_a pos_b radius_b
      \<longleftrightarrow> distance_sq_to pos_a pos_b < (radius_a + radius_b)\<^sup>2)
   \<and> (distance_to pos_a pos_b = radius_a + radius_b
      \<longrightarrow> \<not> detect_collision_r exact pos_a radius_a pos_b radius_b)"
proof -
  have rounded: "detect_collision_r rnd pos_a radius_a pos_b radius_b
      \<longleftrightarrow> distance_sq_to_r rnd pos_a pos_b
            < rnd (rnd (radius_a + radius_b) * rnd (radius_a + radius_b))"
    by (simp add: detect_collision_r_def Let_def)
  note ideal = detect_collision_exact_strict [of pos_a radius_a pos_b radius_b]
  from rounded ideal show ?thesis
    by (simp only: exact_detect_collision) blast
qed

text \<open>
  C3 as stated fails in binary64 arithmetic. The centres \<open>(21.13014703989029,
  28.173529386520386)\<close> and \<open>(0, 0)\<close> with radii \<open>14.086764693260193\<close> and
  \<open>21.13014703989029\<close> are at a distance exactly equal to the sum of the radii, in exact
  arithmetic and as \<open>distance_to\<close> computes it, and \<open>detect_collision\<close> returns true: the
  rounded sum of the two rounded squares is below the rounded square of the radius sum.
\<close>

theorem detect_collision_touching_counterexample:
  "distance_to (Vector2D (354505041 / 16777216) (118168347 / 4194304)) (Vector2D 0 0)
     = 118168347 / 8388608 + 354505041 / 16777216
   \<and> distance_to_r binary64 (Vector2D (354505041 / 16777216) (118168347 / 4194304)) (Vector2D 0 0)
     = binary64 (118168347 / 8388608 + 354505041 / 16777216)
   \<and> detect_collision_r binary64 (Vector2D (354505041 / 16777216) (118168347 / 4194304))
        (118168347 / 8388608) (Vector2D 0 0) (354505041 / 16777216)"
  using c3_touching c3_touching_binary64 c3_trace by (intro conjI)

theorem detect_collision_rounded_comparison_witness:
  "distance_to (Vector2D 0 0) (Vector2D 20 0) = 10 + 10
   \<and> \<not> detect_collision_r exact (Vector2D 0 0) 10 (Vector2D 20 0) 10
   \<and> distance_sq_to_r binary64 (Vector2D 0 0) (Vector2D 15 0)
       < binary64 (binary64 (10 + 10) * binary64 (10 + 10))
   \<and> detect_collision_r binary64 (Vector2D 0 0) 10 (Vector2D 15 0) 10"
proof -
  have d: "distance_to (Vector2D 0 0) (Vector2D 20 0) = 10 + 10"
    by (simp add: distance_to_def vec_sub_def magnitude_axis)
  have lt: "distance_sq_to_r binary64 (Vector2D 0 0) (Vector2D 15 0)
       < binary64 (binary64 (10 + 10) * binary64 (10 + 10))"
    by (simp add: distance_sq_to_r_def magnitude_sq_r_def vec_sub_r_def
        binary64_zero binary64_eval pow2_def round_even_def Let_def)
  have touch: "\<not> detect_collision_r exact (Vector2D 0 0) 10 (Vector2D 20 0) 10"
    using detect_collision_rounded_comparison
            [of exact "Vector2D 0 0" 10 "Vector2D 20 0" 10, THEN conjunct2, THEN conjunct2] d
    by (rule mp)
  have hit: "detect_collision_r binary64 (Vector2D 0 0) 10 (Vector2D 15 0) 10"
    using detect_collision_rounded_comparison
            [of binary64 "Vector2D 0 0" 10 "Vector2D 15 0" 10, THEN conjunct1] lt
    by (rule iffD2)
  from d touch lt hit show ?thesis
    by (intro conjI)
qed

section \<open>Shockwave falloff\<close>

lemma shockwave_r_inside:
  assumes "magnitude_r rnd (vec_sub_r rnd ball_pos org) \<le> SHOCKWAVE_RADIUS"
  shows "\<exists>unit. normalized_r rnd (vec_sub_r rnd ball_pos org) = Inr unit
           \<and> compute_shockwave_impulse_r rnd ball_pos org
               = Inr (vec_mul_r rnd unit
                        (rnd (SHOCKWAVE_STRENGTH / max (magnitude_r rnd (vec_sub_r rnd ball_pos org)) 1)))"
proof -
  have "max (magnitude_r rnd (vec_sub_r rnd ball_pos org)) 1 \<noteq> 0"
    by (simp add: max_def)
  with assms show ?thesis
    by (simp add: compute_shockwave_impulse_r_def Let_def fdiv_r_def normalized_r_Inr
        del: max.absorb1 max.absorb2 max.absorb3 max.absorb4)
qed

lemma shockwave_r_centre:
  assumes zero: "rnd 0 = 0" and mag: "magnitude_r rnd (vec_sub_r rnd ball_pos org) = 0"
  shows "compute_shockwave_impulse_r rnd ball_pos org = Inr (Vector2D 0 0)"
  using assms
  by (simp add: compute_shockwave_impulse_r_def Let_def fdiv_r_def normalized_r_Inr
      SHOCKWAVE_RADIUS_def vec_mul_r_def)

text \<open>
  C4, as amended. Let \<open>d = ball_pos - origin\<close> and let \<open>dist\<close> be the magnitude of \<open>d\<close> as
  the program computes it. With any rounding of the arithmetic: if \<open>dist\<close> exceeds
  \<open>SHOCKWAVE_RADIUS\<close> the impulse is the zero vector; if \<open>dist\<close> is 0 (and zero rounds to
  zero) the impulse is the zero vector; otherwise it is the normalised \<open>d\<close> scaled by
  \<open>SHOCKWAVE_STRENGTH / max dist 1\<close>. In exact arithmetic, of two balls at distances in
  \<open>(1, SHOCKWAVE_RADIUS]\<close> the farther one receives an impulse of strictly smaller
  magnitude.
\<close>

theorem shockwave_impulse_rounded_cases:
  "(magnitude_r rnd (vec_sub_r rnd ball_pos org) > SHOCKWAVE_RADIUS
      \<longrightarrow> compute_shockwave_impulse_r rnd ball_pos org = Inr (Vector2D 0 0))
   \<and> (rnd 0 = 0 \<and> magnitude_r rnd (vec_sub_r rnd ball_pos org) = 0
      \<longrightarrow> compute_shockwave_impulse_r rnd ball_pos org = Inr (Vector2D 0 0))
   \<and> (magnitude_r rnd (vec_sub_r rnd ball_pos org) \<le> SHOCKWAVE_RADIUS
      \<longrightarrow> (\<exists>unit. normalized_r rnd (vec_sub_r rnd ball_pos org) = Inr unit
             \<and> compute_shockwave_impulse_r rnd ball_pos org
                 = Inr (vec_mul_r rnd unit
                          (rnd (SHOCKWAVE_STRENGTH
                                / max (magnitude_r rnd (vec_sub_r rnd ball_pos org)) 1)))))
   \<and> (1 < distance_to ball_pos org \<and> distance_to ball_pos org < distance_to farther org
        \<and> distance_to farther org \<le> SHOCKWAVE_RADIUS
      \<longrightarrow> (\<exists>impulse impulse'.
             compute_shockwave_impulse_r exact ball_pos org = Inr impulse
             \<and> compute_shockwave_impulse_r exact farther org = Inr impulse'
             \<and> magnitude impulse' < magnitude impulse))"
proof -
  have outside: "compute_shockwave_impulse_r rnd ball_pos org = Inr (Vector2D 0 0)"
    if "magnitude_r rnd (vec_sub_r rnd ball_pos org) > SHOCKWAVE_RADIUS"
    using that by (simp add: compute_shockwave_impulse_r_def Let_def)
  have centre: "compute_shockwave_impulse_r rnd ball_pos org = Inr (Vector2D 0 0)"
    if "rnd 0 = 0 \<and> magnitude_r rnd (vec_sub_r rnd ball_pos org) = 0"
    using that shockwave_r_centre [of rnd ball_pos org] by blast
  have inside: "\<exists>unit. normalized_r rnd (vec_sub_r rnd ball_pos org) = Inr unit
             \<and> compute_shockwave_impulse_r rnd ball_pos org
                 = Inr (vec_mul_r rnd unit
                          (rnd (SHOCKWAVE_STRENGTH
                                / max (magnitude_r rnd (vec_sub_r rnd ball_pos org)) 1)))"
    if "magnitude_r rnd (vec_sub_r rnd ball_pos org) \<le> SHOCKWAVE_RADIUS"
    using that by (rule shockwave_r_inside)
  have falloff: "\<exists>impulse impulse'.
             compute_shockwave_impulse_r exact ball_pos org = Inr impulse
             \<and> compute_shockwave_impulse_r exact farther org = Inr impulse'
             \<and> magnitude impulse' < magnitude impulse"
    if "1 < distance_to ball_pos org \<and> distance_to ball_pos org < distance_to farther org
        \<and> distance_to farther org \<le> SHOCKWAVE_RADIUS"
    using that
      shockwave_impulse_exact_cases [of ball_pos org farther, THEN conjunct2, THEN conjunct2,
        THEN conjunct2]
    by (simp only: exact_compute_shockwave_impulse)
  from outside centre inside falloff show ?thesis by blast
qed

text \<open>
  C4 as stated fails in binary64 arithmetic. Balls at \<open>(399, 0)\<close> and
  \<open>(399.00000000000006, 0)\<close>, the next double, are at different distances from a shockwave
  at \<open>(0, 0)\<close>, both inside the radius, and receive the same impulse
  \<open>(2.005012531328321, 0)\<close>: the magnitude does not decrease strictly. A ball at
  \<open>(400, 2\<^sup>-\<^sup>2\<^sup>0)\<close> is farther than \<open>SHOCKWAVE_RADIUS\<close> from the origin, but \<open>math.hypot\<close>
  rounds its distance to 400.0 and the impulse is \<open>(2.0, 4.76837158203125e-09)\<close>, not the
  zero vector.
\<close>

theorem shockwave_impulse_counterexample:
  "1 < distance_to (Vector2D 399 0) (Vector2D 0 0)
   \<and> distance_to (Vector2D 399 0) (Vector2D 0 0)
       < distance_to (Vector2D (7019282231721985 / 17592186044416) 0) (Vector2D 0 0)
   \<and> distance_to (Vector2D (7019282231721985 / 17592186044416) 0) (Vector2D 0 0) \<le> SHOCKWAVE_RADIUS
   \<and> compute_shockwave_impulse_r binary64 (Vector2D 399 0) (Vector2D 0 0)
       = Inr (Vector2D (1128721711120425 / 562949953421312) 0)
   \<and> compute_shockwave_impulse_r binary64 (Vector2D (7019282231721985 / 17592186044416) 0)
         (Vector2D 0 0)
       = Inr (Vector2D (1128721711120425 / 562949953421312) 0)
   \<and> \<not> magnitude (Vector2D (1128721711120425 / 562949953421312) 0)
         < magnitude (Vector2D (1128721711120425 / 562949953421312) 0)
   \<and> SHOCKWAVE_RADIUS < distance_to (Vector2D 400 (1 / 1048576)) (Vector2D 0 0)
   \<and> compute_shockwave_impulse_r binary64 (Vector2D 400 (1 / 1048576)) (Vector2D 0 0)
       = Inr (Vector2D 2 (5764607523034235 / 1208925819614629174706176))
   \<and> Vector2D 2 (5764607523034235 / 1208925819614629174706176) \<noteq> Vector2D 0 0"
proof -
  have a: "1 < distance_to (Vector2D 399 0) (Vector2D 0 0)"
    and b: "distance_to (Vector2D 399 0) (Vector2D 0 0)
       < distance_to (Vector2D (7019282231721985 / 17592186044416) 0) (Vector2D 0 0)"
    and c: "distance_to (Vector2D (7019282231721985 / 17592186044416) 0) (Vector2D 0 0)
       \<le> SHOCKWAVE_RADIUS"
    by (simp_all add: distance_to_same_row SHOCKWAVE_RADIUS_def)
  have same: "\<not> magnitude (Vector2D (1128721711120425 / 562949953421312) 0)
         < magnitude (Vector2D (1128721711120425 / 562949953421312) 0)"
    by simp
  have nz: "Vector2D 2 (5764607523034235 / 1208925819614629174706176) \<noteq> Vector2D 0 0"
    by simp
  from a b c c4_equal_impulses same c4_exact_distance c4_beyond_radius nz show ?thesis
    by (intro conjI)
qed

theorem shockwave_impulse_rounded_cases_witness:
  "magnitude_r binary64 (vec_sub_r binary64 (Vector2D 500 0) (Vector2D 0 0)) > SHOCKWAVE_RADIUS
   \<and> compute_shockwave_impulse_r binary64 (Vector2D 500 0) (Vector2D 0 0) = Inr (Vector2D 0 0)
   \<and> binary64 0 = 0
   \<and> magnitude_r binary64 (vec_sub_r binary64 (Vector2D 7 0) (Vector2D 7 0)) = 0
   \<and> compute_shockwave_impulse_r binary64 (Vector2D 7 0) (Vector2D 7 0) = Inr (Vector2D 0 0)
   \<and> magnitude_r binary64 (vec_sub_r binary64 (Vector2D 399 0) (Vector2D 0 0)) \<le> SHOCKWAVE_RADIUS
   \<and> (\<exists>unit. normalized_r binary64 (vec_sub_r binary64 (Vector2D 399 0) (Vector2D 0 0)) = Inr unit
         \<and> compute_shockwave_impulse_r binary64 (Vector2D 399 0) (Vector2D 0 0)
             = Inr (vec_mul_r binary64 unit
                      (binary64 (SHOCKWAVE_STRENGTH
                         / max (magnitude_r binary64
                                  (vec_sub_r binary64 (Vector2D 399 0) (Vector2D 0 0))) 1))))
   \<and> 1 < distance_to (Vector2D 100 0) (Vector2D 0 0)
   \<and> distance_to (Vector2D 100 0) (Vector2D 0 0) < distance_to (Vector2D 200 0) (Vector2D 0 0)
   \<and> distance_to (Vector2D 200 0) (Vector2D 0 0) \<le> SHOCKWAVE_RADIUS
   \<and> (\<exists>impulse impulse'.
         compute_shockwave_impulse_r exact (Vector2D 100 0) (Vector2D 0 0) = Inr impulse
         \<and> compute_shockwave_impulse_r exact (Vector2D 200 0) (Vector2D 0 0) = Inr impulse'
         \<and> magnitude impulse' < magnitude impulse)"
proof -
  have out: "magnitude_r binary64 (vec_sub_r binary64 (Vector2D 500 0) (Vector2D 0 0))
      > SHOCKWAVE_RADIUS"
    by (simp add: vec_sub_r_def magnitude_r_axis SHOCKWAVE_RADIUS_def
        binary64_zero binary64_eval pow2_def round_even_def Let_def)
  have zero: "binary64 0 = 0"
    by (rule binary64_zero)
  have mag0: "magnitude_r binary64 (vec_sub_r binary64 (Vector2D 7 0) (Vector2D 7 0)) = 0"
    by (simp add: vec_sub_r_def magnitude_r_axis binary64_zero)
  have ins: "magnitude_r binary64 (vec_sub_r binary64 (Vector2D 399 0) (Vector2D 0 0))
      \<le> SHOCKWAVE_RADIUS"
    by (simp add: vec_sub_r_def magnitude_r_axis SHOCKWAVE_RADIUS_def
        binary64_zero binary64_eval pow2_def round_even_def Let_def)
  have a: "1 < distance_to (Vector2D 100 0) (Vector2D 0 0)"
    and b: "distance_to (Vector2D 100 0) (Vector2D 0 0) < distance_to (Vector2D 200 0) (Vector2D 0 0)"
    and c: "distance_to (Vector2D 200 0) (Vector2D 0 0) \<le> SHOCKWAVE_RADIUS"
    by (simp_all add: distance_to_same_row SHOCKWAVE_RADIUS_def)
  have w1: "compute_shockwave_impulse_r binary64 (Vector2D 500 0) (Vector2D 0 0) = Inr (Vector2D 0 0)"
    using shockwave_impulse_rounded_cases
            [of binary64 "Vector2D 500 0" "Vector2D 0 0" "Vector2D 0 0", THEN conjunct1] out
    by (rule mp)
  have w2: "compute_shockwave_impulse_r binary64 (Vector2D 7 0) (Vector2D 7 0) = Inr (Vector2D 0 0)"
    using shockwave_impulse_rounded_cases
            [of binary64 "Vector2D 7 0" "Vector2D 7 0" "Vector2D 0 0", THEN conjunct2,
             THEN conjunct1] zero mag0
    by (rule mp [OF _ conjI])
  have w3: "\<exists>unit. normalized_r binary64 (vec_sub_r binary64 (Vector2D 399 0) (Vector2D 0 0)) = Inr unit
         \<and> compute_shockwave_impulse_r binary64 (Vector2D 399 0) (Vector2D 0 0)
             = Inr (vec_mul_r binary64 unit
                      (binary64 (SHOCKWAVE_STRENGTH
                         / max (magnitude_r binary64
                                  (vec_sub_r binary64 (Vector2D 399 0) (Vector2D 0 0))) 1)))"
    using shockwave_impulse_rounded_cases
            [of binary64 "Vector2D 399 0" "Vector2D 0 0" "Vector2D 0 0", THEN conjunct2,
             THEN conjunct2, THEN conjunct1] ins
    by (rule mp)
  have w4: "\<exists>impulse impulse'.
         compute_shockwave_impulse_r exact (Vector2D 100 0) (Vector2D 0 0) = Inr impulse
         \<and> compute_shockwave_impulse_r exact (Vector2D 200 0) (Vector2D 0 0) = Inr impulse'
         \<and> magnitude impulse' < magnitude impulse"
    using shockwave_impulse_rounded_cases
            [of exact "Vector2D 100 0" "Vector2D 0 0" "Vector2D 200 0", THEN conjunct2,
             THEN conjunct2, THEN conjunct2] a b c
    by (rule mp [OF _ conjI [OF _ conjI]])
  from out w1 zero mag0 w2 ins w3 a b c w4 show ?thesis
    by (intro conjI)
qed

section \<open>Separation\<close>






end
